theory Spec2Isabelle
  imports Complex_Main "HOL-Library.Extended_Nat" "HOL-Library.Sublist"
begin

section \<open>Data model\<close>

text \<open>
  A JavaScript \<open>number\<close> that carries a pixel coordinate, a colour channel or a duration is
  modelled as a real number (no rounding error, no \<open>NaN\<close>, no infinities); where the source
  divides, the theorems assume the divisor to be non-zero, since HOL's \<open>x / 0 = 0\<close> is not
  JavaScript's. Loop counters and cell addresses, which the source only ever starts at \<open>0\<close>
  and increments, are natural numbers; caller-supplied region corners are integers.
\<close>

text \<open>\<^verbatim>\<open>export type Grid = { cols: number; rows: number }\<close>\<close>

record grid =
  cols :: nat
  rows :: nat

text \<open>The bounding box \<^verbatim>\<open>{x, y, width, height}\<close> that \<^verbatim>\<open>locator.boundingBox()\<close> resolves to.\<close>

record box =
  box_x :: real
  box_y :: real
  box_width :: real
  box_height :: real

record point =
  pt_x :: real
  pt_y :: real

text \<open>\<^verbatim>\<open>export type RGBA = [number, number, number, number]\<close>: at run time an array.\<close>

type_synonym rgba = "real list"

text \<open>A thrown JavaScript \<^verbatim>\<open>Error\<close>, identified by its message.\<close>

datatype error = Error string

section \<open>ColorSampler.within (here \<open>within_rgba\<close>)\<close>

text \<open>
  \<^verbatim>\<open>actual.every((v, i) => Math.abs(v - expected[i]) <= tol)\<close>.
  \<open>every_from i\<close> is \<^verbatim>\<open>every\<close> on the rest of the array from index \<open>i\<close>. An index beyond
  \<^verbatim>\<open>expected\<close> reads \<^verbatim>\<open>undefined\<close>, the difference is \<^verbatim>\<open>NaN\<close> and the comparison false.
\<close>

definition channel_ok :: "rgba \<Rightarrow> real \<Rightarrow> real \<Rightarrow> nat \<Rightarrow> bool" where
  "channel_ok expected tol v i =
     (if i < length expected then \<bar>v - expected ! i\<bar> \<le> tol else False)"

fun every_from :: "nat \<Rightarrow> (real \<Rightarrow> nat \<Rightarrow> bool) \<Rightarrow> real list \<Rightarrow> bool" where
  "every_from i p [] = True"
| "every_from i p (v # vs) = (if p v i then every_from (Suc i) p vs else False)"

definition within_rgba :: "rgba \<Rightarrow> rgba \<Rightarrow> real \<Rightarrow> bool" where
  "within_rgba actual expected tol = every_from 0 (channel_ok expected tol) actual"

section \<open>MouseInteractions.getCellCenter\<close>

text \<open>
  \<^verbatim>\<open>canvas.boundingBox()\<close> resolves to a box or to \<^verbatim>\<open>null\<close>; the latter makes
  \<^verbatim>\<open>getCellCenter\<close> throw \<^verbatim>\<open>Error('no canvas bbox')\<close>.
\<close>

definition getCellCenter :: "box option \<Rightarrow> grid \<Rightarrow> nat \<Rightarrow> nat \<Rightarrow> error + point" where
  "getCellCenter bbox g col row =
     (case bbox of
        None \<Rightarrow> Inl (Error ''no canvas bbox'')
      | Some b \<Rightarrow>
          Inr \<lparr> pt_x = box_x b + (box_width b / real (cols g)) * (real col + 0.5),
                pt_y = box_y b + (box_height b / real (rows g)) * (real row + 0.5) \<rparr>)"

section \<open>The capture rectangle of ColorSampler.sampleCell\<close>

text \<open>
  The \<^verbatim>\<open>clip\<close> object of the screenshot fallback:
  \<^verbatim>\<open>cellW = box.width / grid.cols\<close>, \<^verbatim>\<open>x: box.x + cellW * col\<close>,
  \<^verbatim>\<open>width: Math.max(2, Math.floor(cellW))\<close>, and the same on the vertical axis.
\<close>

definition cellW :: "box \<Rightarrow> grid \<Rightarrow> real" where
  "cellW b g = box_width b / real (cols g)"

definition cellH :: "box \<Rightarrow> grid \<Rightarrow> real" where
  "cellH b g = box_height b / real (rows g)"

definition clip :: "box \<Rightarrow> grid \<Rightarrow> nat \<Rightarrow> nat \<Rightarrow> box" where
  "clip b g col row =
     \<lparr> box_x = box_x b + cellW b g * real col,
       box_y = box_y b + cellH b g * real row,
       box_width = max 2 (of_int \<lfloor>cellW b g\<rfloor>),
       box_height = max 2 (of_int \<lfloor>cellH b g\<rfloor>) \<rparr>"

text \<open>Two rectangles overlap when their interiors meet.\<close>

definition overlaps :: "box \<Rightarrow> box \<Rightarrow> bool" where
  "overlaps p q \<longleftrightarrow>
     box_x p < box_x q + box_width q \<and> box_x q < box_x p + box_width p \<and>
     box_y p < box_y q + box_height q \<and> box_y q < box_y p + box_height p"

definition inside :: "box \<Rightarrow> box \<Rightarrow> bool" where
  "inside p b \<longleftrightarrow>
     box_x b \<le> box_x p \<and> box_x p + box_width p \<le> box_x b + box_width b \<and>
     box_y b \<le> box_y p \<and> box_y p + box_height p \<le> box_y b + box_height b"

text \<open>The widths of the rectangles of one row, added up.\<close>

definition row_width_sum :: "box \<Rightarrow> grid \<Rightarrow> nat \<Rightarrow> real" where
  "row_width_sum b g row = (\<Sum>col \<leftarrow> [0..<cols g]. box_width (clip b g col row))"

section \<open>The region of GridScanner.selectCellsAndExtractText\<close>




section \<open>Asynchronous collaborators\<close>

text \<open>
  Every \<^verbatim>\<open>await\<close>ed call on the page-automation driver, or on an object injected into a class,
  is an action on an abstract world \<open>'w\<close> (the browser page and whatever else the call can
  change): it settles either with a value (\<open>Inr\<close>) or with a thrown error (\<open>Inl\<close>), and
  returns the world it leaves behind. Such a call always settles; the one awaited promise
  whose making is in the source, that of the direct-read script of \<^verbatim>\<open>sampleCell\<close>, is
  modelled with its pending state further down.
\<close>

type_synonym ('w, 'a) action = "'w \<Rightarrow> (error + 'a) \<times> 'w"

definition ok :: "'a \<Rightarrow> ('w, 'a) action" where
  "ok a w = (Inr a, w)"

definition throw :: "error \<Rightarrow> ('w, 'a) action" where
  "throw e w = (Inl e, w)"

text \<open>\<^verbatim>\<open>const a = await m; ... f(a)\<close>: a throw of \<open>m\<close> leaves the rest out.\<close>

definition seq :: "('w, 'a) action \<Rightarrow> ('a \<Rightarrow> ('w, 'b) action) \<Rightarrow> ('w, 'b) action" where
  "seq m f w = (case m w of (Inl e, w') \<Rightarrow> (Inl e, w') | (Inr a, w') \<Rightarrow> f a w')"

text \<open>\<^verbatim>\<open>try { m } catch (e) { h(e) }\<close>\<close>

definition catch :: "('w, 'a) action \<Rightarrow> (error \<Rightarrow> ('w, 'a) action) \<Rightarrow> ('w, 'a) action" where
  "catch m h w = (case m w of (Inl e, w') \<Rightarrow> h e w' | (Inr a, w') \<Rightarrow> (Inr a, w'))"

text \<open>\<^verbatim>\<open>s || undefined\<close> on an optional string: \<^verbatim>\<open>null\<close>, \<^verbatim>\<open>undefined\<close> and \<^verbatim>\<open>''\<close> are falsy.\<close>

definition or_undefined :: "string option \<Rightarrow> string option" where
  "or_undefined t = (case t of None \<Rightarrow> None | Some s \<Rightarrow> if s = [] then None else Some s)"

section \<open>GridScanner\<close>

text \<open>An element of the array that \<^verbatim>\<open>TooltipDetector.getVisibleTooltips\<close> resolves to.\<close>

record tooltip =
  tip_selector :: string
  tip_index :: nat
  tip_text :: "string option"
  tip_html :: string
  tip_boundingBox :: "box option"

record hover_options =
  moveSteps :: nat
  jitterAmount :: real
  dwellTime :: real

text \<open>
  The objects handed to the \<^verbatim>\<open>GridScanner\<close> constructor, by the methods the scanner calls on
  them: \<^verbatim>\<open>mouseInteractions.hoverCell\<close>, \<^verbatim>\<open>page.waitForTimeout\<close>,
  \<^verbatim>\<open>tooltipDetector.getVisibleTooltips\<close>, \<^verbatim>\<open>page.mouse.move\<close> and
  \<^verbatim>\<open>colorSampler.sampleCell\<close>.
\<close>

record 'w scanner_deps =
  mouseInteractions_hoverCell :: "nat \<Rightarrow> nat \<Rightarrow> hover_options \<Rightarrow> ('w, unit) action"
  page_waitForTimeout :: "real \<Rightarrow> ('w, unit) action"
  tooltipDetector_getVisibleTooltips :: "('w, tooltip list) action"
  page_mouse_move :: "real \<Rightarrow> real \<Rightarrow> ('w, unit) action"
  colorSampler_sampleCell :: "nat \<Rightarrow> nat \<Rightarrow> ('w, rgba) action"

subsection \<open>scanAllCellsForTooltips\<close>

text \<open>
  One entry of \<^verbatim>\<open>results\<close>. The fields \<^verbatim>\<open>canvasChanges\<close> and \<^verbatim>\<open>hovered\<close> of the
  declared type are never assigned and are left out.
\<close>

record cell_result =
  res_col :: nat
  res_row :: nat
  res_hasTooltip :: bool
  res_tooltipText :: "string option"
  res_baseline :: "rgba option"
  res_colorTestingDisabled :: "bool option"

record progress =
  prog_current :: nat
  prog_total :: nat
  prog_cell :: "nat \<times> nat"

text \<open>The \<^verbatim>\<open>options\<close> argument; an absent property is \<open>None\<close>.\<close>

record 'w scan_options =
  scan_hoverDelay :: "real option"
  scan_detectionSensitivity :: "real option"
  scan_skipEmptyCells :: "bool option"
  scan_progressCallback :: "(progress \<Rightarrow> ('w, unit) action) option"

text \<open>
  \<^verbatim>\<open>const { hoverDelay = 200, detectionSensitivity = 10, skipEmptyCells = true,
  progressCallback } = options || {}\<close>
\<close>

definition hoverDelay_of :: "'w scan_options option \<Rightarrow> real" where
  "hoverDelay_of options =
     (case options of None \<Rightarrow> 200
      | Some opts \<Rightarrow> (case scan_hoverDelay opts of None \<Rightarrow> 200 | Some v \<Rightarrow> v))"

definition skipEmptyCells_of :: "'w scan_options option \<Rightarrow> bool" where
  "skipEmptyCells_of options =
     (case options of None \<Rightarrow> True
      | Some opts \<Rightarrow> (case scan_skipEmptyCells opts of None \<Rightarrow> True | Some v \<Rightarrow> v))"

definition progressCallback_of ::
  "'w scan_options option \<Rightarrow> (progress \<Rightarrow> ('w, unit) action) option" where
  "progressCallback_of options =
     (case options of None \<Rightarrow> None | Some opts \<Rightarrow> scan_progressCallback opts)"

text \<open>
  \<^verbatim>\<open>const baselines = new Map<string, any>()\<close>: nothing is ever stored in it. The key
  \<^verbatim>\<open>`${col},${row}`\<close> is the pair.
\<close>

definition baselines :: "nat \<times> nat \<rightharpoonup> rgba" where
  "baselines = Map.empty"

text \<open>The fresh \<^verbatim>\<open>cellResult = { col, row, hasTooltip: false, baseline }\<close>.\<close>

definition newCellResult :: "nat \<Rightarrow> nat \<Rightarrow> rgba option \<Rightarrow> cell_result" where
  "newCellResult col row baseline =
     \<lparr> res_col = col, res_row = row, res_hasTooltip = False, res_tooltipText = None,
       res_baseline = baseline, res_colorTestingDisabled = None \<rparr>"

text \<open>
  The body of the per-cell \<^verbatim>\<open>try\<close>: hover, wait \<^verbatim>\<open>hoverDelay\<close>, query the visible tooltips,
  then fill in \<^verbatim>\<open>cellResult\<close>. All three awaited calls come before the first assignment to
  \<^verbatim>\<open>cellResult\<close>, so a throw leaves \<^verbatim>\<open>cellResult\<close> as it was created.
\<close>

definition hoverAndDetect ::
  "'w scanner_deps \<Rightarrow> real \<Rightarrow> nat \<Rightarrow> nat \<Rightarrow> cell_result \<Rightarrow> ('w, cell_result) action" where
  "hoverAndDetect d hoverDelay col row cellResult =
     seq (mouseInteractions_hoverCell d col row
            \<lparr> moveSteps = 2, jitterAmount = 1, dwellTime = 20 \<rparr>) (\<lambda>_.
     seq (page_waitForTimeout d hoverDelay) (\<lambda>_.
     seq (tooltipDetector_getVisibleTooltips d) (\<lambda>domTooltips.
       let r1 = (case domTooltips of
                   [] \<Rightarrow> cellResult
                 | t # _ \<Rightarrow> cellResult \<lparr> res_hasTooltip := True,
                                         res_tooltipText := or_undefined (tip_text t) \<rparr>);
           r2 = r1 \<lparr> res_colorTestingDisabled := Some True \<rparr>;
           r3 = (case res_baseline cellResult of
                   None \<Rightarrow> r2
                 | Some bl \<Rightarrow> r2 \<lparr> res_baseline := Some bl \<rparr>)
       in ok r3)))"

text \<open>
  \<^verbatim>\<open>if (progressCallback) { progressCallback({ current: processed + 1, total: totalCells,
  cell: { col, row } }) }\<close>, with \<^verbatim>\<open>totalCells = this.grid.cols * this.grid.rows\<close>.
\<close>

definition notifyProgress ::
  "'w scan_options option \<Rightarrow> grid \<Rightarrow> nat \<Rightarrow> nat \<Rightarrow> nat \<Rightarrow> ('w, unit) action" where
  "notifyProgress options g col row processed =
     (case progressCallback_of options of
        None \<Rightarrow> ok ()
      | Some cb \<Rightarrow> cb \<lparr> prog_current = processed + 1,
                         prog_total = cols g * rows g,
                         prog_cell = (col, row) \<rparr>)"

text \<open>
  The body of the inner \<^verbatim>\<open>for\<close> loop, on the pair \<^verbatim>\<open>(results, processed)\<close>: the skip test,
  the progress callback, the \<^verbatim>\<open>try\<close>/\<^verbatim>\<open>catch\<close> (whose handler is empty), the push and the
  10 ms pause. The callback and the pause are outside the \<^verbatim>\<open>try\<close>.
\<close>

definition scanCell ::
  "'w scanner_deps \<Rightarrow> grid \<Rightarrow> 'w scan_options option \<Rightarrow> nat \<Rightarrow> nat \<Rightarrow>
   cell_result list \<times> nat \<Rightarrow> ('w, cell_result list \<times> nat) action" where
  "scanCell d g options row col st =
     (case st of (results, processed) \<Rightarrow>
        let baseline = baselines (col, row) in
        if baseline = None \<and> skipEmptyCells_of options then ok (results, Suc processed)
        else
          seq (notifyProgress options g col row processed) (\<lambda>_.
          seq (catch (hoverAndDetect d (hoverDelay_of options) col row
                        (newCellResult col row baseline))
                 (\<lambda>e. ok (newCellResult col row baseline))) (\<lambda>cellResult.
          seq (page_waitForTimeout d 10) (\<lambda>_.
            ok (results @ [cellResult], Suc processed)))))"

text \<open>\<^verbatim>\<open>for (let col = 0; col < this.grid.cols; col++)\<close>, from the current \<open>col\<close>.\<close>

function scanCols ::
  "'w scanner_deps \<Rightarrow> grid \<Rightarrow> 'w scan_options option \<Rightarrow> nat \<Rightarrow> nat \<Rightarrow>
   cell_result list \<times> nat \<Rightarrow> ('w, cell_result list \<times> nat) action" where
  "scanCols d g options row col st w =
     (if col < cols g then
        (case scanCell d g options row col st w of
           (Inl e, w') \<Rightarrow> (Inl e, w')
         | (Inr st', w') \<Rightarrow> scanCols d g options row (Suc col) st' w')
      else (Inr st, w))"
  by pat_completeness auto
termination
  by (relation "measure (\<lambda>(d, g, options, row, col, st, w). cols g - col)") auto

text \<open>\<^verbatim>\<open>for (let row = 0; row < this.grid.rows; row++)\<close>, from the current \<open>row\<close>.\<close>

function scanRows ::
  "'w scanner_deps \<Rightarrow> grid \<Rightarrow> 'w scan_options option \<Rightarrow> nat \<Rightarrow>
   cell_result list \<times> nat \<Rightarrow> ('w, cell_result list \<times> nat) action" where
  "scanRows d g options row st w =
     (if row < rows g then
        (case scanCols d g options row 0 st w of
           (Inl e, w') \<Rightarrow> (Inl e, w')
         | (Inr st', w') \<Rightarrow> scanRows d g options (Suc row) st' w')
      else (Inr st, w))"
  by pat_completeness auto
termination
  by (relation "measure (\<lambda>(d, g, options, row, st, w). rows g - row)") auto

declare scanCols.simps [simp del] scanRows.simps [simp del]

text \<open>
  \<^verbatim>\<open>try { await page.mouse.move(0, 0); await page.waitForTimeout(100) } catch (e) {}\<close>:
  only the world it leaves matters.
\<close>

definition clearHover :: "'w scanner_deps \<Rightarrow> 'w \<Rightarrow> 'w" where
  "clearHover d w = snd (seq (page_mouse_move d 0 0) (\<lambda>_. page_waitForTimeout d 100) w)"

record scan_summary =
  sum_hasAnyTooltips :: bool
  sum_tooltipCells :: "(nat \<times> nat) list"
  sum_domTooltips :: nat
  sum_canvasTooltips :: nat

record scan_report =
  rep_totalCells :: nat
  rep_cellsWithTooltips :: nat
  rep_results :: "cell_result list"
  rep_colorTestingDisabled :: bool
  rep_summary :: scan_summary

text \<open>The returned object; \<^verbatim>\<open>r.hasTooltip && r.tooltipText\<close> asks for a non-empty text.\<close>

definition truthy_text :: "string option \<Rightarrow> bool" where
  "truthy_text t = (case t of None \<Rightarrow> False | Some s \<Rightarrow> s \<noteq> [])"

definition scanReport :: "cell_result list \<Rightarrow> nat \<Rightarrow> scan_report" where
  "scanReport results processed =
     \<lparr> rep_totalCells = processed,
       rep_cellsWithTooltips = length (filter res_hasTooltip results),
       rep_results = results,
       rep_colorTestingDisabled = True,
       rep_summary =
         \<lparr> sum_hasAnyTooltips = list_ex res_hasTooltip results,
           sum_tooltipCells =
             map (\<lambda>r. (res_col r, res_row r)) (filter res_hasTooltip results),
           sum_domTooltips =
             length (filter (\<lambda>r. res_hasTooltip r \<and> truthy_text (res_tooltipText r)) results),
           sum_canvasTooltips = 0 \<rparr> \<rparr>"

definition scanAllCellsForTooltips ::
  "'w scanner_deps \<Rightarrow> grid \<Rightarrow> 'w scan_options option \<Rightarrow> ('w, scan_report) action" where
  "scanAllCellsForTooltips d g options =
     seq (scanRows d g options 0 ([], 0)) (\<lambda>(results, processed) w.
       (Inr (scanReport results processed), clearHover d w))"

subsection \<open>hasAnyTooltips\<close>




text \<open>
  \<^verbatim>\<open>Math.max(1, Math.floor(n / Math.sqrt(maxCellsToCheck)))\<close> for \<open>n\<close> the column or row
  count. With \<^verbatim>\<open>maxCellsToCheck = 0\<close> the quotient is \<^verbatim>\<open>Infinity\<close> (\<^verbatim>\<open>NaN\<close> when \<open>n\<close> is 0
  too), with a negative one the square root is \<^verbatim>\<open>NaN\<close> and so is the step; a counter
  that such a step has been added to fails every later loop test: that is the step \<open>\<infinity>\<close>.
\<close>

definition step_of :: "nat \<Rightarrow> real \<Rightarrow> enat" where
  "step_of n maxCellsToCheck =
     (if maxCellsToCheck \<le> 0 then \<infinity>
      else enat (max 1 (nat \<lfloor>real n / sqrt maxCellsToCheck\<rfloor>)))"

text \<open>
  \<^verbatim>\<open>for (let col = 0; col < this.grid.cols; col += stepCol) { cellsToCheck.push({ col, row });
  if (cellsToCheck.length >= maxCellsToCheck) break; }\<close>, from the current \<open>col\<close>.
\<close>

function collectCols ::
  "grid \<Rightarrow> real \<Rightarrow> nat \<Rightarrow> enat \<Rightarrow> (nat \<times> nat) list \<Rightarrow> (nat \<times> nat) list" where
  "collectCols g maxCellsToCheck row col cellsToCheck =
     (if col < enat (cols g) then
        (let pushed = cellsToCheck @ [(the_enat col, row)] in
         if maxCellsToCheck \<le> real (length pushed) then pushed
         else collectCols g maxCellsToCheck row (col + step_of (cols g) maxCellsToCheck) pushed)
      else cellsToCheck)"
  by pat_completeness auto
termination
proof (relation "measure (\<lambda>(g, maxCellsToCheck, row, col, cellsToCheck).
        nat \<lceil>maxCellsToCheck\<rceil> - length cellsToCheck)")
  show "wf (measure (\<lambda>(g, maxCellsToCheck, row, col, cellsToCheck).
        nat \<lceil>maxCellsToCheck\<rceil> - length cellsToCheck))"
    by simp
next
  fix g :: grid and maxCellsToCheck :: real and row :: nat and col :: enat
    and cellsToCheck pushed :: "(nat \<times> nat) list"
  assume "pushed = cellsToCheck @ [(the_enat col, row)]"
    and "\<not> maxCellsToCheck \<le> real (length pushed)"
  then have "real (length cellsToCheck) + 1 < maxCellsToCheck"
    by simp
  then have "int (length cellsToCheck) + 1 < \<lceil>maxCellsToCheck\<rceil>"
    by linarith
  then show "((g, maxCellsToCheck, row, col + step_of (cols g) maxCellsToCheck, pushed),
         (g, maxCellsToCheck, row, col, cellsToCheck))
        \<in> measure (\<lambda>(g, maxCellsToCheck, row, col, cellsToCheck).
            nat \<lceil>maxCellsToCheck\<rceil> - length cellsToCheck)"
    using \<open>pushed = cellsToCheck @ [(the_enat col, row)]\<close> by simp
qed

text \<open>
  The outer loop, \<^verbatim>\<open>for (let row = 0; row < this.grid.rows; row += stepRow)\<close>, with its own
  \<^verbatim>\<open>break\<close> after the inner loop.
\<close>

function collectRows ::
  "grid \<Rightarrow> real \<Rightarrow> enat \<Rightarrow> (nat \<times> nat) list \<Rightarrow> (nat \<times> nat) list" where
  "collectRows g maxCellsToCheck row cellsToCheck =
     (if row < enat (rows g) then
        (let collected = collectCols g maxCellsToCheck (the_enat row) 0 cellsToCheck in
         if maxCellsToCheck \<le> real (length collected) then collected
         else collectRows g maxCellsToCheck (row + step_of (rows g) maxCellsToCheck) collected)
      else cellsToCheck)"
  by pat_completeness auto
termination
proof (relation "measure (\<lambda>(g, maxCellsToCheck, row, cellsToCheck).
        case row of enat r \<Rightarrow> rows g - r | \<infinity> \<Rightarrow> 0)")
  show "wf (measure (\<lambda>(g, maxCellsToCheck, row, cellsToCheck).
        case row of enat r \<Rightarrow> rows g - r | \<infinity> \<Rightarrow> 0))"
    by simp
next
  fix g :: grid and maxCellsToCheck :: real and row :: enat
    and cellsToCheck collected :: "(nat \<times> nat) list"
  assume "row < enat (rows g)"
  then obtain r where r: "row = enat r" "r < rows g"
    by (cases row) auto
  show "((g, maxCellsToCheck, row + step_of (rows g) maxCellsToCheck, collected),
         (g, maxCellsToCheck, row, cellsToCheck))
        \<in> measure (\<lambda>(g, maxCellsToCheck, row, cellsToCheck).
            case row of enat r \<Rightarrow> rows g - r | \<infinity> \<Rightarrow> 0)"
    using r by (auto simp: step_of_def)
qed

declare collectCols.simps [simp del] collectRows.simps [simp del]

definition cellsToCheck :: "grid \<Rightarrow> real \<Rightarrow> (nat \<times> nat) list" where
  "cellsToCheck g maxCellsToCheck = collectRows g maxCellsToCheck 0 []"

record any_result =
  found :: bool
  firstTooltipAt :: "(nat \<times> nat) option"
  tooltipText :: "string option"







section \<open>TooltipDetector.waitForTooltip\<close>

text \<open>
  The calls on \<^verbatim>\<open>this.page.locator(selector)\<close>:
  \<^verbatim>\<open>waitFor({ state: 'visible', timeout })\<close>, \<^verbatim>\<open>textContent()\<close> (a string or \<^verbatim>\<open>null\<close>),
  \<^verbatim>\<open>innerHTML()\<close> and \<^verbatim>\<open>boundingBox()\<close> (a box or \<^verbatim>\<open>null\<close>).
\<close>

record 'w locator_api =
  locator_waitFor :: "string \<Rightarrow> real \<Rightarrow> ('w, unit) action"
  locator_textContent :: "string \<Rightarrow> ('w, string option) action"
  locator_innerHTML :: "string \<Rightarrow> ('w, string) action"
  locator_boundingBox :: "string \<Rightarrow> ('w, box option) action"

record wait_options =
  wait_timeout :: "nat option"
  wait_tooltipSelectors :: "string list option"

definition defaultTooltipSelectors :: "string list" where
  "defaultTooltipSelectors =
     [''[role=\"tooltip\"]'', ''.tooltip'', ''.hover-info'', ''.chart-tooltip'',
      ''.data-tooltip'', ''[data-tooltip]'', ''.tippy-content'', ''.d3-tip'']"

definition timeout_of :: "wait_options option \<Rightarrow> nat" where
  "timeout_of options =
     (case options of None \<Rightarrow> 3000
      | Some opts \<Rightarrow> (case wait_timeout opts of None \<Rightarrow> 3000 | Some v \<Rightarrow> v))"

definition tooltipSelectors_of :: "wait_options option \<Rightarrow> string list" where
  "tooltipSelectors_of options =
     (case options of None \<Rightarrow> defaultTooltipSelectors
      | Some opts \<Rightarrow>
          (case wait_tooltipSelectors opts of None \<Rightarrow> defaultTooltipSelectors | Some v \<Rightarrow> v))"

record tooltip_info =
  info_selector :: string
  info_text :: "string option"
  info_html :: string
  info_boundingBox :: "box option"

text \<open>
  The body of the \<^verbatim>\<open>try\<close> for one selector: wait until it is visible, for at most
  \<open>share\<close> milliseconds, then read text, markup and bounding box, in that order.
\<close>

definition attempt :: "'w locator_api \<Rightarrow> string \<Rightarrow> real \<Rightarrow> ('w, tooltip_info) action" where
  "attempt api selector share =
     seq (locator_waitFor api selector share) (\<lambda>_.
     seq (locator_textContent api selector) (\<lambda>text.
     seq (locator_innerHTML api selector) (\<lambda>html.
     seq (locator_boundingBox api selector) (\<lambda>bb.
       ok \<lparr> info_selector = selector, info_text = or_undefined text,
            info_html = html, info_boundingBox = bb \<rparr>))))"

text \<open>\<^verbatim>\<open>for (const selector of tooltipSelectors) { try { ... return } catch (e) { continue; } }\<close>\<close>

fun trySelectors ::
  "'w locator_api \<Rightarrow> real \<Rightarrow> string list \<Rightarrow> 'w \<Rightarrow> tooltip_info option \<times> 'w" where
  "trySelectors api share [] w = (None, w)"
| "trySelectors api share (selector # rest) w =
     (case attempt api selector share w of
        (Inl e, w') \<Rightarrow> trySelectors api share rest w'
      | (Inr info, w') \<Rightarrow> (Some info, w'))"

text \<open>A non-negative integer in decimal, as a template literal prints it.\<close>

fun show_nat :: "nat \<Rightarrow> string" where
  "show_nat n =
     (if n < 10 then [''0123456789'' ! n]
      else show_nat (n div 10) @ [''0123456789'' ! (n mod 10)])"

declare show_nat.simps [simp del]

text \<open>\<^verbatim>\<open>tooltipSelectors.join(', ')\<close>\<close>

fun join :: "string \<Rightarrow> string list \<Rightarrow> string" where
  "join sep [] = []"
| "join sep [s] = s"
| "join sep (s # t # rest) = s @ sep @ join sep (t # rest)"

text \<open>
  \<^verbatim>\<open>`No tooltip found within ${timeout}ms using selectors: ${tooltipSelectors.join(', ')}`\<close>,
  for a timeout given as a whole number of milliseconds.
\<close>

definition noTooltipMessage :: "nat \<Rightarrow> string list \<Rightarrow> string" where
  "noTooltipMessage timeout selectors =
     ''No tooltip found within '' @ show_nat timeout @ ''ms using selectors: '' @
     join '', '' selectors"

text \<open>
  Each selector is given \<^verbatim>\<open>timeout / tooltipSelectors.length\<close>; with no selector at all the
  loop body, the only place where the quotient is used, never runs.
\<close>

definition waitForTooltip ::
  "'w locator_api \<Rightarrow> wait_options option \<Rightarrow> ('w, tooltip_info) action" where
  "waitForTooltip api options w =
     (let timeout = timeout_of options;
          tooltipSelectors = tooltipSelectors_of options
      in case trySelectors api (real timeout / real (length tooltipSelectors))
                tooltipSelectors w of
           (Some info, w') \<Rightarrow> (Inr info, w')
         | (None, w') \<Rightarrow> (Inl (Error (noTooltipMessage timeout tooltipSelectors)), w'))"

section \<open>ColorSampler.sampleCell\<close>

subsection \<open>The direct-read script\<close>

text \<open>
  What the script handed to \<^verbatim>\<open>page.evaluate\<close> sees of the canvas element inside the page:
  \<^verbatim>\<open>getBoundingClientRect()\<close>, the \<^verbatim>\<open>width\<close> and \<^verbatim>\<open>height\<close> attributes, the context that
  \<^verbatim>\<open>getContext('webgl2') || getContext('webgl')\<close> gives (if any) by its \<^verbatim>\<open>readPixels\<close> at a
  framebuffer position, and the context that \<^verbatim>\<open>getContext('2d')\<close> gives (if any) by its
  \<^verbatim>\<open>getImageData(x, y, 1, 1).data\<close>, which throws on a canvas it may not read.
\<close>

type_synonym pixel = "real \<times> real \<times> real \<times> real"

record canvas_dom =
  rect_left :: real
  rect_top :: real
  rect_width :: real
  rect_height :: real
  can_width :: int
  can_height :: int
  gl_readPixels :: "(int \<Rightarrow> int \<Rightarrow> pixel) option"
  ctx2d_getImageData :: "(int \<Rightarrow> int \<Rightarrow> error + pixel) option"

text \<open>\<^verbatim>\<open>Math.round\<close>: the nearest integer, a half going up.\<close>

definition js_round :: "real \<Rightarrow> int" where
  "js_round x = \<lfloor>x + 1 / 2\<rfloor>"

text \<open>
  The positions \<open>(dx, dy)\<close> of
  \<^verbatim>\<open>for (let dy = -1; dy <= 1; dy++) for (let dx = -1; dx <= 1; dx++)\<close>, in the order of
  the loops.
\<close>

definition neighbourhood :: "(int \<times> int) list" where
  "neighbourhood =
     [(- 1, - 1), (0, - 1), (1, - 1), (- 1, 0), (0, 0), (1, 0), (- 1, 1), (0, 1), (1, 1)]"

text \<open>
  The body of those loops, \<^verbatim>\<open>const [R, G, B, A] = read(cx + dx, cy + dy); r += R; g += G;
  b += B; a += A; n++\<close>, over the positions still to come. A read that throws ends it.
\<close>

fun sumReads ::
  "(int \<Rightarrow> int \<Rightarrow> error + pixel) \<Rightarrow> int \<Rightarrow> int \<Rightarrow> (int \<times> int) list \<Rightarrow> pixel \<times> nat \<Rightarrow>
   error + pixel \<times> nat" where
  "sumReads read cx cy [] acc = Inr acc"
| "sumReads read cx cy ((dx, dy) # rest) ((r, g, b, a), n) =
     (case read (cx + dx) (cy + dy) of
        Inl e \<Rightarrow> Inl e
      | Inr (R, G, B, A) \<Rightarrow> sumReads read cx cy rest ((r + R, g + G, b + B, a + A), Suc n))"

text \<open>
  \<^verbatim>\<open>avg(read)\<close>:
  \<^verbatim>\<open>[Math.round(r / n), Math.round(g / n), Math.round(b / n), Math.round(a / n)]\<close>.
\<close>

definition avg :: "int \<Rightarrow> int \<Rightarrow> (int \<Rightarrow> int \<Rightarrow> error + pixel) \<Rightarrow> error + rgba" where
  "avg cx cy read =
     (case sumReads read cx cy neighbourhood ((0, 0, 0, 0), 0) of
        Inl e \<Rightarrow> Inl e
      | Inr ((r, g, b, a), n) \<Rightarrow>
          Inr [of_int (js_round (r / real n)), of_int (js_round (g / real n)),
               of_int (js_round (b / real n)), of_int (js_round (a / real n))])"

text \<open>
  The promise that the script returns either resolves or stays pending. Its executor
  only measures the element, asks for a context and registers a
  \<^verbatim>\<open>requestAnimationFrame\<close> callback; nothing in it rejects the promise.
\<close>

datatype 'a promise = Resolved 'a | Pending

text \<open>
  The callback \<^verbatim>\<open>() => { resolve(avg(read)) }\<close>, run by the page at the next frame, outside
  the executor: when \<^verbatim>\<open>avg\<close> throws, the error leaves the callback, \<^verbatim>\<open>resolve\<close> is never
  called and the promise stays pending.
\<close>

definition frameCallback :: "error + rgba \<Rightarrow> rgba promise" where
  "frameCallback averaged = (case averaged of Inl e \<Rightarrow> Pending | Inr v \<Rightarrow> Resolved v)"

text \<open>
  The script: the cell centre in client coordinates (\<^verbatim>\<open>sx\<close>, \<^verbatim>\<open>sy\<close>), the canvas pixel
  under it (\<^verbatim>\<open>cx\<close>, \<^verbatim>\<open>cy\<close>), then the read through the WebGL context, with the row
  inverted (\<^verbatim>\<open>can.height - 1 - y\<close>), or else through the 2D context. Without a 2D context
  \<^verbatim>\<open>ctx!.getImageData\<close> throws a \<^verbatim>\<open>TypeError\<close>, inside the callback as well.
\<close>

definition directReadScript :: "canvas_dom \<Rightarrow> grid \<Rightarrow> nat \<Rightarrow> nat \<Rightarrow> rgba promise" where
  "directReadScript can g col row =
     (let sx = rect_left can + (rect_width can / real (cols g)) * (real col + 0.5);
          sy = rect_top can + (rect_height can / real (rows g)) * (real row + 0.5);
          cx = js_round ((sx - rect_left can) * (of_int (can_width can) / rect_width can));
          cy = js_round ((sy - rect_top can) * (of_int (can_height can) / rect_height can))
      in case gl_readPixels can of
           Some readPixels \<Rightarrow>
             frameCallback (avg cx cy (\<lambda>x y. Inr (readPixels x (can_height can - 1 - y))))
         | None \<Rightarrow>
             (case ctx2d_getImageData can of
                None \<Rightarrow>
                  frameCallback (avg cx cy (\<lambda>x y. Inl (Error ''TypeError: ctx is null'')))
              | Some getImageData \<Rightarrow> frameCallback (avg cx cy getImageData)))"

subsection \<open>sampleCell\<close>

type_synonym handle = nat
type_synonym png = "nat list"

text \<open>
  What \<^verbatim>\<open>sampleCell\<close> awaits: \<^verbatim>\<open>canvas.elementHandle()\<close> (a handle or \<^verbatim>\<open>null\<close>), the
  \<^verbatim>\<open>page.evaluate\<close> of the direct-read script on \<^verbatim>\<open>[handle, grid, { col, row }]\<close>,
  \<^verbatim>\<open>canvas.boundingBox()\<close>, \<^verbatim>\<open>page.screenshot({ clip, type: 'png' })\<close> and the
  \<^verbatim>\<open>page.evaluate\<close> of the decoding script on the image bytes. For the direct read the
  page either rejects the evaluation without running the script (the handle is stale,
  the page is gone) or runs the script on the element as it then is. The decoding
  script is an \<^verbatim>\<open>async\<close> function without callbacks: it settles, and what it settles to is
  the page's answer.
\<close>

record 'w sampler_api =
  canvas_elementHandle :: "('w, handle option) action"
  page_evaluate_element :: "handle \<Rightarrow> ('w, canvas_dom) action"
  canvas_boundingBox :: "('w, box option) action"
  page_screenshot :: "box \<Rightarrow> ('w, png) action"
  page_evaluate_decode :: "png \<Rightarrow> ('w, rgba) action"

text \<open>
  Tier 1: \<^verbatim>\<open>await this.page.evaluate(script, ...).catch(() => null)\<close>. A rejected evaluation
  becomes \<^verbatim>\<open>null\<close>, a resolved script gives its array, and while the script's promise is
  pending the \<^verbatim>\<open>await\<close> does not return: that is the result \<open>None\<close>.
\<close>

definition directRead ::
  "'w sampler_api \<Rightarrow> handle \<Rightarrow> grid \<Rightarrow> nat \<Rightarrow> nat \<Rightarrow> 'w \<Rightarrow> (rgba option \<times> 'w) option" where
  "directRead api h g col row w =
     (case page_evaluate_element api h w of
        (Inl e, w') \<Rightarrow> Some (None, w')
      | (Inr can, w') \<Rightarrow>
          (case directReadScript can g col row of
             Resolved v \<Rightarrow> Some (Some v, w')
           | Pending \<Rightarrow> None))"

text \<open>Tier 2: the screenshot of the cell's \<open>clip\<close> rectangle, decoded and averaged.\<close>

definition captureFallback ::
  "'w sampler_api \<Rightarrow> grid \<Rightarrow> nat \<Rightarrow> nat \<Rightarrow> ('w, rgba) action" where
  "captureFallback api g col row =
     seq (canvas_boundingBox api) (\<lambda>bbox.
       (case bbox of
          None \<Rightarrow> throw (Error ''no canvas bbox'')
        | Some b \<Rightarrow>
            seq (page_screenshot api (clip b g col row)) (\<lambda>bytes.
              page_evaluate_decode api bytes)))"

text \<open>
  \<^verbatim>\<open>sampleCell\<close>: \<open>Some\<close> of its outcome and the world it leaves, or \<open>None\<close> when it never
  returns. In \<^verbatim>\<open>if (rgba) return rgba\<close> an array is truthy and \<^verbatim>\<open>null\<close> is not.
\<close>

definition sampleCell ::
  "'w sampler_api \<Rightarrow> grid \<Rightarrow> nat \<Rightarrow> nat \<Rightarrow> 'w \<Rightarrow> ((error + rgba) \<times> 'w) option" where
  "sampleCell api g col row w =
     (case canvas_elementHandle api w of
        (Inl e, w1) \<Rightarrow> Some (Inl e, w1)
      | (Inr None, w1) \<Rightarrow> Some (Inl (Error ''canvas not found''), w1)
      | (Inr (Some h), w1) \<Rightarrow>
          (case directRead api h g col row w1 of
             None \<Rightarrow> None
           | Some (Some v, w2) \<Rightarrow> Some (Inr v, w2)
           | Some (None, w2) \<Rightarrow> Some (captureFallback api g col row w2)))"

section \<open>Reference notions used in the statements\<close>

text \<open>Row-major order: row outer, column inner, both increasing.\<close>

definition rowMajor :: "grid \<Rightarrow> (nat \<times> nat) list" where
  "rowMajor g = concat (map (\<lambda>row. map (\<lambda>col. (col, row)) [0..<cols g]) [0..<rows g])"

definition cellOf :: "cell_result \<Rightarrow> nat \<times> nat" where
  "cellOf r = (res_col r, res_row r)"

text \<open>
  The scan with every cell's failure isolated, as a fold that cannot abort: for each
  cell of the list in turn, the callback is notified, the \<^verbatim>\<open>try\<close> body runs on a fresh
  negative record, a throw of it leaves that record as it is, and the pause follows.
  \<open>recordCells\<close> gives the records and the world after the last pause.
\<close>

fun recordCells ::
  "'w scanner_deps \<Rightarrow> grid \<Rightarrow> 'w scan_options option \<Rightarrow> (nat \<times> nat) list \<Rightarrow> nat \<Rightarrow> 'w \<Rightarrow>
   cell_result list \<times> 'w" where
  "recordCells d g options [] n w = ([], w)"
| "recordCells d g options (c # cs) n w =
     (let w1 = snd (notifyProgress options g (fst c) (snd c) n w);
          fresh = newCellResult (fst c) (snd c) None;
          tried = hoverAndDetect d (hoverDelay_of options) (fst c) (snd c) fresh w1;
          r = (case fst tried of Inl e \<Rightarrow> fresh | Inr done \<Rightarrow> done);
          w3 = snd (page_waitForTimeout d 10 (snd tried));
          rest = recordCells d g options cs (Suc n) w3
      in (r # fst rest, snd rest))"

text \<open>
  The world in which the \<^verbatim>\<open>try\<close> body of cell \<open>c\<close> starts when the cells \<open>before\<close> have
  been recorded.
\<close>

definition tryWorld ::
  "'w scanner_deps \<Rightarrow> grid \<Rightarrow> 'w scan_options option \<Rightarrow> (nat \<times> nat) list \<Rightarrow> nat \<times> nat \<Rightarrow> 'w \<Rightarrow>
   'w" where
  "tryWorld d g options before c w =
     snd (notifyProgress options g (fst c) (snd c) (length before)
            (snd (recordCells d g options before 0 w)))"

text \<open>
  \<open>allFail api share selectors w\<close> is the world after every selector of the list has been
  attempted in turn and has failed, and \<open>None\<close> if one of them succeeds.
\<close>

fun allFail :: "'w locator_api \<Rightarrow> real \<Rightarrow> string list \<Rightarrow> 'w \<Rightarrow> 'w option" where
  "allFail api share [] w = Some w"
| "allFail api share (selector # rest) w =
     (case attempt api selector share w of
        (Inl e, w') \<Rightarrow> allFail api share rest w'
      | (Inr info, w') \<Rightarrow> None)"



section \<open>Simulated collaborators\<close>

text \<open>
  Concrete collaborators on which the theorems are run, in the manner of the mocks of the
  repository's unit tests. Each records the calls it receives.
\<close>

datatype event =
  Hover nat nat | Wait real | Query | Move real real | Sample nat nat

record sim_world =
  sw_pointer :: "(nat \<times> nat) option"
  sw_trace :: "event list"

definition sim_start :: sim_world where
  "sim_start = \<lparr> sw_pointer = None, sw_trace = [] \<rparr>"

text \<open>
  A page on which hovering a cell of \<open>broken\<close> throws and the cell under the pointer shows
  the tooltips \<open>tips\<close> gives for it.
\<close>

definition sim_deps ::
  "((nat \<times> nat) \<Rightarrow> bool) \<Rightarrow> ((nat \<times> nat) \<Rightarrow> tooltip list) \<Rightarrow> sim_world scanner_deps" where
  "sim_deps broken tips =
     \<lparr> mouseInteractions_hoverCell = (\<lambda>col row opts w.
         if broken (col, row)
         then (Inl (Error ''hover failed''),
               \<lparr> sw_pointer = sw_pointer w, sw_trace = sw_trace w @ [Hover col row] \<rparr>)
         else (Inr (),
               \<lparr> sw_pointer = Some (col, row), sw_trace = sw_trace w @ [Hover col row] \<rparr>)),
       page_waitForTimeout = (\<lambda>ms w.
         (Inr (), \<lparr> sw_pointer = sw_pointer w, sw_trace = sw_trace w @ [Wait ms] \<rparr>)),
       tooltipDetector_getVisibleTooltips = (\<lambda>w.
         (Inr (case sw_pointer w of None \<Rightarrow> [] | Some c \<Rightarrow> tips c),
          \<lparr> sw_pointer = sw_pointer w, sw_trace = sw_trace w @ [Query] \<rparr>)),
       page_mouse_move = (\<lambda>x y w.
         (Inr (), \<lparr> sw_pointer = None, sw_trace = sw_trace w @ [Move x y] \<rparr>)),
       colorSampler_sampleCell = (\<lambda>col row w.
         (Inr [255, 255, 255, 255],
          \<lparr> sw_pointer = sw_pointer w, sw_trace = sw_trace w @ [Sample col row] \<rparr>)) \<rparr>"

definition sim_tip :: "string \<Rightarrow> tooltip" where
  "sim_tip s = \<lparr> tip_selector = ''.tooltip'', tip_index = 0, tip_text = Some s,
                 tip_html = s, tip_boundingBox = None \<rparr>"


definition lively_deps :: "sim_world scanner_deps" where
  "lively_deps = sim_deps (\<lambda>c. False) (\<lambda>c. [sim_tip ''tip''])"

text \<open>
  A page that closes when cell \<open>(1, 0)\<close> is hovered: that hover throws, and so does
  every call made after it.
\<close>

definition page_closed :: "sim_world \<Rightarrow> bool" where
  "page_closed w \<longleftrightarrow> Hover 1 0 \<in> set (sw_trace w)"

definition crash_deps :: "sim_world scanner_deps" where
  "crash_deps =
     \<lparr> mouseInteractions_hoverCell = (\<lambda>col row opts w.
         if (col, row) = (1, 0) \<or> page_closed w
         then (Inl (Error ''Target closed''),
               \<lparr> sw_pointer = sw_pointer w, sw_trace = sw_trace w @ [Hover col row] \<rparr>)
         else (Inr (),
               \<lparr> sw_pointer = Some (col, row), sw_trace = sw_trace w @ [Hover col row] \<rparr>)),
       page_waitForTimeout = (\<lambda>ms w.
         (if page_closed w then Inl (Error ''Target closed'') else Inr (),
          \<lparr> sw_pointer = sw_pointer w, sw_trace = sw_trace w @ [Wait ms] \<rparr>)),
       tooltipDetector_getVisibleTooltips = (\<lambda>w.
         (if page_closed w then Inl (Error ''Target closed'') else Inr [],
          \<lparr> sw_pointer = sw_pointer w, sw_trace = sw_trace w @ [Query] \<rparr>)),
       page_mouse_move = (\<lambda>x y w.
         (if page_closed w then Inl (Error ''Target closed'') else Inr (),
          \<lparr> sw_pointer = None, sw_trace = sw_trace w @ [Move x y] \<rparr>)),
       colorSampler_sampleCell = (\<lambda>col row w.
         (if page_closed w then Inl (Error ''Target closed'') else Inr [255, 255, 255, 255],
          \<lparr> sw_pointer = sw_pointer w, sw_trace = sw_trace w @ [Sample col row] \<rparr>)) \<rparr>"

datatype locator_event =
  WaitFor string real | TextContent string | InnerHTML string | BoundingBox string

text \<open>
  Locators of which those in \<open>visible\<close> become visible in time and those in \<open>readable\<close>
  can then be read.
\<close>

definition sim_locators ::
  "(string \<Rightarrow> bool) \<Rightarrow> (string \<Rightarrow> bool) \<Rightarrow> locator_event list locator_api" where
  "sim_locators visible readable =
     \<lparr> locator_waitFor = (\<lambda>selector share w.
         (if visible selector then Inr () else Inl (Error ''Timeout''),
          w @ [WaitFor selector share])),
       locator_textContent = (\<lambda>selector w.
         (if readable selector then Inr (Some (''text of '' @ selector))
          else Inl (Error ''detached''),
          w @ [TextContent selector])),
       locator_innerHTML = (\<lambda>selector w. (Inr selector, w @ [InnerHTML selector])),
       locator_boundingBox = (\<lambda>selector w. (Inr None, w @ [BoundingBox selector])) \<rparr>"

text \<open>Locators none of which ever becomes visible.\<close>

definition dead_locators :: "locator_event list locator_api" where
  "dead_locators = sim_locators (\<lambda>s. False) (\<lambda>s. True)"

datatype sampler_event =
  ElementHandle | Evaluate handle | CanvasBox | Screenshot box | Decode png

text \<open>
  A sampler whose page resolves the handle to \<open>h\<close>, answers the evaluation of the direct
  read with \<open>element\<close> and has the bounding box \<open>bbox\<close>.
\<close>

definition sim_sampler ::
  "handle option \<Rightarrow> error + canvas_dom \<Rightarrow> box option \<Rightarrow> sampler_event list sampler_api" where
  "sim_sampler h element bbox =
     \<lparr> canvas_elementHandle = (\<lambda>w. (Inr h, w @ [ElementHandle])),
       page_evaluate_element = (\<lambda>h w. (element, w @ [Evaluate h])),
       canvas_boundingBox = (\<lambda>w. (Inr bbox, w @ [CanvasBox])),
       page_screenshot = (\<lambda>c w. (Inr [137, 80, 78, 71], w @ [Screenshot c])),
       page_evaluate_decode = (\<lambda>bytes w. (Inr [1, 2, 3, 255], w @ [Decode bytes])) \<rparr>"

text \<open>
  The page of the examples: hovering cell \<open>(1, 0)\<close> throws, cell \<open>(2, 0)\<close> shows a tooltip
  with the text \<open>A\<close>, cell \<open>(0, 1)\<close> one without text. The options switch
  \<^verbatim>\<open>skipEmptyCells\<close> off.
\<close>

definition demo_tips :: "nat \<times> nat \<Rightarrow> tooltip list" where
  "demo_tips c =
     (if c = (2, 0) then [sim_tip ''A'']
      else if c = (0, 1)
        then [\<lparr> tip_selector = ''.tooltip'', tip_index = 0, tip_text = None,
                tip_html = ''<i></i>'', tip_boundingBox = None \<rparr>]
      else [])"

definition demo_deps :: "sim_world scanner_deps" where
  "demo_deps = sim_deps (\<lambda>c. c = (1, 0)) demo_tips"

definition demo_options :: "sim_world scan_options option" where
  "demo_options = Some \<lparr> scan_hoverDelay = None, scan_detectionSensitivity = None,
                         scan_skipEmptyCells = Some False, scan_progressCallback = None \<rparr>"

text \<open>
  Locators for the examples: \<open>.a\<close> never becomes visible, \<open>.b\<close> becomes visible but
  cannot be read, \<open>.c\<close> becomes visible and can be read. The options give 1500 ms to the
  three of them.
\<close>

definition demo_locators :: "locator_event list locator_api" where
  "demo_locators = sim_locators (\<lambda>s. s \<noteq> ''.a'') (\<lambda>s. s \<noteq> ''.b'')"

definition demo_wait_options :: "wait_options option" where
  "demo_wait_options =
     Some \<lparr> wait_timeout = Some 1500, wait_tooltipSelectors = Some [''.a'', ''.b'', ''.c''] \<rparr>"

text \<open>The bounding box of the repository's unit tests.\<close>

definition demo_box :: box where
  "demo_box = \<lparr> box_x = 10, box_y = 10, box_width = 200, box_height = 150 \<rparr>"

text \<open>
  Two 2D canvases of 400 by 300 pixels shown in that box: \<open>red_canvas\<close> is uniformly red
  and readable; \<open>tainted_canvas\<close> holds cross-origin data, so every \<^verbatim>\<open>getImageData\<close> on it
  throws a \<^verbatim>\<open>SecurityError\<close>. \<open>red_sampler\<close> and \<open>tainted_sampler\<close> are the samplers of pages
  that show them.
\<close>

definition red_canvas :: canvas_dom where
  "red_canvas =
     \<lparr> rect_left = 10, rect_top = 10, rect_width = 200, rect_height = 150,
       can_width = 400, can_height = 300, gl_readPixels = None,
       ctx2d_getImageData = Some (\<lambda>x y. Inr (255, 0, 0, 255)) \<rparr>"

definition tainted_canvas :: canvas_dom where
  "tainted_canvas =
     \<lparr> rect_left = 10, rect_top = 10, rect_width = 200, rect_height = 150,
       can_width = 400, can_height = 300, gl_readPixels = None,
       ctx2d_getImageData = Some (\<lambda>x y. Inl (Error ''SecurityError'')) \<rparr>"

definition red_sampler :: "sampler_event list sampler_api" where
  "red_sampler = sim_sampler (Some 7) (Inr red_canvas) (Some demo_box)"

definition tainted_sampler :: "sampler_event list sampler_api" where
  "tainted_sampler = sim_sampler (Some 7) (Inr tainted_canvas) (Some demo_box)"

text \<open>A sampler whose page rejects the evaluation of the direct read.\<close>

definition stale_sampler :: "sampler_event list sampler_api" where
  "stale_sampler = sim_sampler (Some 7) (Inl (Error ''handle is disposed'')) (Some demo_box)"

section \<open>Colour comparison and cell geometry\<close>

lemma every_from_iff:
  "every_from i p vs \<longleftrightarrow> (\<forall>k<length vs. p (vs ! k) (i + k))"
proof (induction vs arbitrary: i)
  case Nil
  then show ?case by simp
next
  case (Cons v vs)
  have "(\<forall>k<Suc (length vs). p ((v # vs) ! k) (i + k)) \<longleftrightarrow>
        p v i \<and> (\<forall>k<length vs. p (vs ! k) (Suc i + k))"
    by (auto simp: less_Suc_eq_0_disj)
  with Cons show ?case by simp
qed

lemma all_less_4: "(\<forall>i<4::nat. P i) \<longleftrightarrow> P 0 \<and> P 1 \<and> P 2 \<and> P 3"
proof -
  have "i < 4 \<longleftrightarrow> i = 0 \<or> i = 1 \<or> i = 2 \<or> i = 3" for i :: nat
    by arith
  then show ?thesis
    by auto
qed

lemma within_rgba_iff:
  "length a = length b \<Longrightarrow>
   within_rgba a b t \<longleftrightarrow> (\<forall>i<length a. \<bar>a ! i - b ! i\<bar> \<le> t)"
  by (simp add: within_rgba_def every_from_iff channel_ok_def)

text \<open>
  Claim C4. For RGBA 4-tuples \<open>a\<close>, \<open>b\<close> and a tolerance \<open>t \<ge> 0\<close>, \<open>within\<close> holds exactly
  when each of the four channels differs by at most \<open>t\<close>; hence \<open>within c c t\<close> always
  holds, also for \<open>t = 0\<close>, and for colours that differ by exactly \<open>d\<close> in every channel it
  holds exactly when \<open>t \<ge> d\<close>.
\<close>

theorem within_per_channel:
  assumes "length a = 4" and "length b = 4" and "0 \<le> t"
  shows "(within_rgba a b t \<longleftrightarrow> (\<forall>i<4. \<bar>a ! i - b ! i\<bar> \<le> t)) \<and>
         within_rgba a a t \<and>
         ((\<forall>i<4. \<bar>a ! i - b ! i\<bar> = d) \<longrightarrow> (within_rgba a b t \<longleftrightarrow> d \<le> t))"
proof -
  have iff: "within_rgba a b t \<longleftrightarrow> (\<forall>i<4. \<bar>a ! i - b ! i\<bar> \<le> t)"
    using assms(1,2) by (simp add: within_rgba_iff)
  have refl: "within_rgba a a t"
    using assms(3) by (simp add: within_rgba_iff)
  have exact: "within_rgba a b t \<longleftrightarrow> d \<le> t" if "\<forall>i<4. \<bar>a ! i - b ! i\<bar> = d"
  proof -
    from that have "\<bar>a ! 0 - b ! 0\<bar> = d" and "\<bar>a ! 1 - b ! 1\<bar> = d"
      and "\<bar>a ! 2 - b ! 2\<bar> = d" and "\<bar>a ! 3 - b ! 3\<bar> = d"
      by simp_all
    then show ?thesis
      unfolding iff all_less_4 by simp
  qed
  from iff refl exact show ?thesis by blast
qed

theorem within_per_channel_witness:
  "length [255, 0, 0, 255 :: real] = 4 \<and> length [250, 5, 5, 250 :: real] = 4 \<and> (0::real) \<le> 10 \<and>
   within_rgba [255, 0, 0, 255] [250, 5, 5, 250] 10 \<and>
   within_rgba [255, 0, 0, 255] [255, 0, 0, 255] 10 \<and>
   \<bar>[255, 0, 0, 255] ! 0 - [250, 5, 5, 250 :: real] ! 0\<bar> = 5 \<and>
   \<bar>[255, 0, 0, 255] ! 1 - [250, 5, 5, 250 :: real] ! 1\<bar> = 5 \<and>
   \<bar>[255, 0, 0, 255] ! 2 - [250, 5, 5, 250 :: real] ! 2\<bar> = 5 \<and>
   \<bar>[255, 0, 0, 255] ! 3 - [250, 5, 5, 250 :: real] ! 3\<bar> = 5 \<and>
   (within_rgba [255, 0, 0, 255] [250, 5, 5, 250] 10 \<longleftrightarrow> (5::real) \<le> 10)"
proof -
  have d: "\<forall>i<4. \<bar>[255, 0, 0, 255] ! i - [250, 5, 5, 250 :: real] ! i\<bar> = 5"
    by (simp add: all_less_4)
  then have le: "\<forall>i<4. \<bar>[255, 0, 0, 255] ! i - [250, 5, 5, 250 :: real] ! i\<bar> \<le> 10"
    by simp
  show ?thesis
    using within_per_channel [of "[255, 0, 0, 255]" "[250, 5, 5, 250]" 10 5] d le
    by simp
qed

text \<open>
  Claim C8. For a bounding box of positive width and height and a grid with at least one
  column and one row, the centre of a cell is
  \<open>x = box.x + (box.width / cols) * (col + 0.5)\<close> and
  \<open>y = box.y + (box.height / rows) * (row + 0.5)\<close>. The instance below is the 4 by 3 grid
  on the box \<open>(10, 10, 200, 150)\<close>, whose cell \<open>(1, 2)\<close> has the centre \<open>(85, 135)\<close>.
\<close>

theorem getCellCenter_formula:
  assumes "0 < box_width b" and "0 < box_height b" and "1 \<le> cols g" and "1 \<le> rows g"
  shows "getCellCenter (Some b) g col row =
           Inr \<lparr> pt_x = box_x b + (box_width b / real (cols g)) * (real col + 0.5),
                 pt_y = box_y b + (box_height b / real (rows g)) * (real row + 0.5) \<rparr>"
  by (simp add: getCellCenter_def)

theorem getCellCenter_formula_witness:
  "(0::real) < 200 \<and> (0::real) < 150 \<and> (1::nat) \<le> 4 \<and> (1::nat) \<le> 3 \<and>
   getCellCenter (Some \<lparr>box_x = 10, box_y = 10, box_width = 200, box_height = 150\<rparr>)
     \<lparr>cols = 4, rows = 3\<rparr> 1 2 = Inr \<lparr>pt_x = 85, pt_y = 135\<rparr>"
  using getCellCenter_formula
    [of "\<lparr>box_x = 10, box_y = 10, box_width = 200, box_height = 150\<rparr>" "\<lparr>cols = 4, rows = 3\<rparr>" 1 2]
  by simp

lemma clip_simps:
  "box_x (clip b g col row) = box_x b + cellW b g * real col"
  "box_y (clip b g col row) = box_y b + cellH b g * real row"
  "box_width (clip b g col row) = max 2 (of_int \<lfloor>cellW b g\<rfloor>)"
  "box_height (clip b g col row) = max 2 (of_int \<lfloor>cellH b g\<rfloor>)"
  by (simp_all add: clip_def)

text \<open>
  Claim C2, as stated, fails: on a 3 by 3 pixel box with a 2 by 2 grid the cells are 1.5
  pixels wide, the capture rectangles are widened to the 2-pixel minimum, and so the
  rectangles of columns 0 and 1 overlap, the second leaves the box, and the widths of a
  row add up to 4.
\<close>

theorem clip_tiling_counterexample:
  "overlaps (clip \<lparr>box_x = 0, box_y = 0, box_width = 3, box_height = 3\<rparr> \<lparr>cols = 2, rows = 2\<rparr> 0 0)
            (clip \<lparr>box_x = 0, box_y = 0, box_width = 3, box_height = 3\<rparr> \<lparr>cols = 2, rows = 2\<rparr> 1 0) \<and>
   \<not> inside (clip \<lparr>box_x = 0, box_y = 0, box_width = 3, box_height = 3\<rparr> \<lparr>cols = 2, rows = 2\<rparr> 1 0)
             \<lparr>box_x = 0, box_y = 0, box_width = 3, box_height = 3\<rparr> \<and>
   row_width_sum \<lparr>box_x = 0, box_y = 0, box_width = 3, box_height = 3\<rparr> \<lparr>cols = 2, rows = 2\<rparr> 0 = 4"
  by (simp add: overlaps_def inside_def row_width_sum_def clip_simps cellW_def cellH_def
      upt_conv_Cons)

text \<open>Along one axis: the extent \<open>\<lfloor>s\<rfloor>\<close> placed at \<open>s * i\<close> ends before \<open>s * j\<close> for \<open>i < j\<close>.\<close>

lemma axis_disjoint:
  fixes s :: real
  assumes "2 \<le> s" and "i < j"
  shows "s * real i + max 2 (of_int \<lfloor>s\<rfloor>) \<le> s * real j"
proof -
  have "max 2 (of_int \<lfloor>s\<rfloor>) \<le> s"
    using assms(1) by simp
  then have "s * real i + max 2 (of_int \<lfloor>s\<rfloor>) \<le> s * (real i + 1)"
    by (simp add: algebra_simps)
  also have "\<dots> \<le> s * real j"
    using assms by (intro mult_left_mono) auto
  finally show ?thesis .
qed

lemma axis_inside:
  fixes s w :: real
  assumes "2 \<le> s" and "i < n" and "s = w / real n"
  shows "0 \<le> s * real i" and "s * real i + max 2 (of_int \<lfloor>s\<rfloor>) \<le> w"
proof -
  show "0 \<le> s * real i"
    using assms(1) by simp
  have "s * real i + max 2 (of_int \<lfloor>s\<rfloor>) \<le> s * real n"
    using assms(1,2) by (rule axis_disjoint)
  also have "s * real n = w"
    using assms(2,3) by simp
  finally show "s * real i + max 2 (of_int \<lfloor>s\<rfloor>) \<le> w" .
qed

lemma clip_inside:
  assumes "2 \<le> cellW b g" and "2 \<le> cellH b g" and "col < cols g" and "row < rows g"
  shows "inside (clip b g col row) b"
  using axis_inside [OF assms(1,3) cellW_def] axis_inside [OF assms(2,4) cellH_def]
  by (simp add: inside_def clip_simps add.assoc)

lemma clip_disjoint_cols:
  assumes "2 \<le> cellW b g" and "col \<noteq> col'"
  shows "\<not> overlaps (clip b g col row) (clip b g col' row')"
proof (cases "col < col'")
  case True
  from axis_disjoint [OF assms(1) this] show ?thesis
    by (simp add: overlaps_def clip_simps)
next
  case False
  with assms(2) have "col' < col" by simp
  from axis_disjoint [OF assms(1) this] show ?thesis
    by (simp add: overlaps_def clip_simps)
qed

lemma clip_disjoint_rows:
  assumes "2 \<le> cellH b g" and "row \<noteq> row'"
  shows "\<not> overlaps (clip b g col row) (clip b g col' row')"
proof (cases "row < row'")
  case True
  from axis_disjoint [OF assms(1) this] show ?thesis
    by (simp add: overlaps_def clip_simps)
next
  case False
  with assms(2) have "row' < row" by simp
  from axis_disjoint [OF assms(1) this] show ?thesis
    by (simp add: overlaps_def clip_simps)
qed

lemma row_width_sum_eq:
  "row_width_sum b g row = real (cols g) * max 2 (of_int \<lfloor>cellW b g\<rfloor>)"
  by (simp add: row_width_sum_def clip_simps sum_list_triv)

lemma row_width_sum_bounds:
  assumes "1 \<le> cols g" and "2 \<le> cellW b g"
  shows "box_width b - real (cols g) < row_width_sum b g row"
    and "row_width_sum b g row \<le> box_width b"
proof -
  let ?s = "cellW b g" and ?c = "real (cols g)"
  have c: "0 < ?c" using assms(1) by simp
  have w: "box_width b = ?c * ?s"
    using c by (simp add: cellW_def)
  have m: "max 2 (of_int \<lfloor>?s\<rfloor>) = (of_int \<lfloor>?s\<rfloor> :: real)"
    using assms(2) by (simp add: max_def le_floor_iff)
  have "?s - 1 < of_int \<lfloor>?s\<rfloor>" by linarith
  then have "?c * (?s - 1) < ?c * of_int \<lfloor>?s\<rfloor>"
    using c by (simp only: mult_less_cancel_left_pos)
  then show "box_width b - ?c < row_width_sum b g row"
    by (simp add: row_width_sum_eq m w algebra_simps)
  have "of_int \<lfloor>?s\<rfloor> \<le> ?s" by simp
  then have "?c * of_int \<lfloor>?s\<rfloor> \<le> ?c * ?s"
    using c by (simp only: mult_le_cancel_left_pos)
  then show "row_width_sum b g row \<le> box_width b"
    by (simp add: row_width_sum_eq m w)
qed

text \<open>
  Claim C2, amended. When a cell is at least 2 pixels wide and 2 pixels high
  (\<open>width / cols \<ge> 2\<close> and \<open>height / rows \<ge> 2\<close>, so that the 2-pixel minimum does not
  apply), every capture rectangle of the grid lies within the bounding box, no two
  rectangles of different cells overlap, and the widths of the rectangles of a row add up
  to \<open>cols * \<lfloor>width / cols\<rfloor>\<close>, which is at most the box width and less than \<open>cols\<close>
  pixels short of it.
\<close>

theorem clip_tiling:
  assumes "1 \<le> cols g" and "1 \<le> rows g" and "2 \<le> cellW b g" and "2 \<le> cellH b g"
  shows "(col < cols g \<and> row < rows g \<longrightarrow> inside (clip b g col row) b) \<and>
         (col \<noteq> col' \<or> row \<noteq> row' \<longrightarrow> \<not> overlaps (clip b g col row) (clip b g col' row')) \<and>
         row_width_sum b g row = real (cols g) * of_int \<lfloor>cellW b g\<rfloor> \<and>
         box_width b - real (cols g) < row_width_sum b g row \<and>
         row_width_sum b g row \<le> box_width b"
proof -
  have "max 2 (of_int \<lfloor>cellW b g\<rfloor>) = (of_int \<lfloor>cellW b g\<rfloor> :: real)"
    using assms(3) by (simp add: max_def le_floor_iff)
  then have "row_width_sum b g row = real (cols g) * of_int \<lfloor>cellW b g\<rfloor>"
    by (simp add: row_width_sum_eq)
  then show ?thesis
    using clip_inside [OF assms(3,4)] clip_disjoint_cols [OF assms(3)]
      clip_disjoint_rows [OF assms(4)] row_width_sum_bounds [OF assms(1,3)]
    by blast
qed

theorem clip_tiling_witness:
  "(1::nat) \<le> cols \<lparr>cols = 3, rows = 2\<rparr> \<and> (1::nat) \<le> rows \<lparr>cols = 3, rows = 2\<rparr> \<and>
   2 \<le> cellW \<lparr>box_x = 10, box_y = 10, box_width = 200, box_height = 150\<rparr> \<lparr>cols = 3, rows = 2\<rparr> \<and>
   2 \<le> cellH \<lparr>box_x = 10, box_y = 10, box_width = 200, box_height = 150\<rparr> \<lparr>cols = 3, rows = 2\<rparr> \<and>
   inside (clip \<lparr>box_x = 10, box_y = 10, box_width = 200, box_height = 150\<rparr> \<lparr>cols = 3, rows = 2\<rparr> 2 1)
     \<lparr>box_x = 10, box_y = 10, box_width = 200, box_height = 150\<rparr> \<and>
   \<not> overlaps
       (clip \<lparr>box_x = 10, box_y = 10, box_width = 200, box_height = 150\<rparr> \<lparr>cols = 3, rows = 2\<rparr> 2 1)
       (clip \<lparr>box_x = 10, box_y = 10, box_width = 200, box_height = 150\<rparr> \<lparr>cols = 3, rows = 2\<rparr> 1 1) \<and>
   row_width_sum \<lparr>box_x = 10, box_y = 10, box_width = 200, box_height = 150\<rparr> \<lparr>cols = 3, rows = 2\<rparr> 1 = 198"
proof -
  have f: "\<lfloor>200 / 3 :: real\<rfloor> = 66"
    by (simp add: floor_eq_iff)
  show ?thesis
    using clip_tiling [of "\<lparr>cols = 3, rows = 2\<rparr>"
        "\<lparr>box_x = 10, box_y = 10, box_width = 200, box_height = 150\<rparr>" 2 1 1 1] f
    by (simp add: cellW_def cellH_def)
qed




section \<open>The full scan\<close>

lemma hoverAndDetect_cell:
  assumes "hoverAndDetect d delay col row cr w = (Inr r, w')"
  shows "cellOf r = cellOf cr"
  using assms
  by (auto simp: hoverAndDetect_def seq_def ok_def cellOf_def Let_def
      split: prod.splits sum.splits list.splits option.splits)

lemma scanCell_skip:
  "skipEmptyCells_of options \<Longrightarrow>
   scanCell d g options row col (rs, n) w = (Inr (rs, Suc n), w)"
  by (simp add: scanCell_def baselines_def ok_def)

lemma scanCols_skip:
  assumes "skipEmptyCells_of options"
  shows "scanCols d g options row col (rs, n) w = (Inr (rs, n + (cols g - col)), w)"
proof (induction "cols g - col" arbitrary: col n)
  case 0
  then show ?case by (simp add: scanCols.simps)
next
  case (Suc k)
  then have lt: "col < cols g" and k: "k = cols g - Suc col" by simp_all
  have "scanCols d g options row col (rs, n) w = scanCols d g options row (Suc col) (rs, Suc n) w"
    using lt by (subst scanCols.simps) (simp add: scanCell_skip [OF assms])
  also have "\<dots> = (Inr (rs, Suc n + (cols g - Suc col)), w)"
    by (rule Suc.hyps(1) [OF k])
  finally show ?case using lt by simp
qed

lemma scanRows_skip:
  assumes "skipEmptyCells_of options"
  shows "scanRows d g options row (rs, n) w = (Inr (rs, n + (rows g - row) * cols g), w)"
proof (induction "rows g - row" arbitrary: row n)
  case 0
  then show ?case by (simp add: scanRows.simps)
next
  case (Suc k)
  then have lt: "row < rows g" and k: "k = rows g - Suc row" by simp_all
  have "scanRows d g options row (rs, n) w = scanRows d g options (Suc row) (rs, n + cols g) w"
    using lt by (subst scanRows.simps) (simp add: scanCols_skip [OF assms])
  also have "\<dots> = (Inr (rs, n + cols g + (rows g - Suc row) * cols g), w)"
    by (rule Suc.hyps(1) [OF k])
  also have "n + cols g + (rows g - Suc row) * cols g = n + (rows g - row) * cols g"
  proof -
    have "rows g - row = Suc (rows g - Suc row)" using lt by simp
    then show ?thesis by simp
  qed
  finally show ?case .
qed

lemma scan_skips_every_cell:
  assumes "skipEmptyCells_of options"
  shows "scanAllCellsForTooltips d g options w =
           (Inr (scanReport [] (rows g * cols g)), clearHover d w)"
  by (simp add: scanAllCellsForTooltips_def seq_def scanRows_skip [OF assms])

text \<open>
  Claim C1, at its failing input. The default options leave \<^verbatim>\<open>skipEmptyCells\<close> on, and no
  baseline is ever collected, so every cell of the 3 by 2 grid is skipped: the loop counts
  6 cells, the report holds no result, and the only calls the page receives are the final
  pointer move and pause. No cell is hovered and no tooltip is queried, although every
  cell would show one.
\<close>

theorem scan_default_options_hovers_nothing:
  "scanAllCellsForTooltips lively_deps \<lparr>cols = 3, rows = 2\<rparr> None
     sim_start =
   (Inr \<lparr> rep_totalCells = 6, rep_cellsWithTooltips = 0, rep_results = [],
          rep_colorTestingDisabled = True,
          rep_summary = \<lparr> sum_hasAnyTooltips = False, sum_tooltipCells = [],
                          sum_domTooltips = 0, sum_canvasTooltips = 0 \<rparr> \<rparr>,
    \<lparr> sw_pointer = None, sw_trace = [Move 0 0, Wait 100] \<rparr>)"
proof -
  have "skipEmptyCells_of (None :: sim_world scan_options option)"
    by (simp add: skipEmptyCells_of_def)
  then show ?thesis
    by (simp add: scan_skips_every_cell scanReport_def clearHover_def seq_def sim_deps_def
        lively_deps_def sim_start_def)
qed

lemma scanCell_cells:
  assumes "\<not> skipEmptyCells_of options"
    and "scanCell d g options row col (rs, n) w = (Inr (rs', n'), w')"
  shows "map cellOf rs' = map cellOf rs @ [(col, row)] \<and> n' = Suc n"
proof -
  let ?fresh = "newCellResult col row (baselines (col, row))"
  have fresh: "cellOf ?fresh = (col, row)"
    by (simp add: cellOf_def newCellResult_def)
  have "cellOf r = (col, row)"
    if "catch (hoverAndDetect d (hoverDelay_of options) col row ?fresh) (\<lambda>e. ok ?fresh) w1
          = (Inr r, w2)" for r w1 w2
    using that fresh hoverAndDetect_cell [of d "hoverDelay_of options" col row ?fresh w1]
    by (auto simp: catch_def ok_def split: prod.splits sum.splits)
  then show ?thesis
    using assms
    by (auto simp: scanCell_def seq_def ok_def Let_def split: prod.splits sum.splits)
qed

lemma scanCols_cells:
  assumes "\<not> skipEmptyCells_of options"
  shows "scanCols d g options row col (rs, n) w = (Inr (rs', n'), w') \<Longrightarrow>
         map cellOf rs' = map cellOf rs @ map (\<lambda>c. (c, row)) [col..<cols g] \<and>
         n' = n + (cols g - col)"
proof (induction "cols g - col" arbitrary: col rs n w)
  case 0
  then show ?case by (simp add: scanCols.simps)
next
  case (Suc k)
  then have lt: "col < cols g" and k: "k = cols g - Suc col" by simp_all
  from Suc.prems lt obtain rs1 n1 w1 where
    cell: "scanCell d g options row col (rs, n) w = (Inr (rs1, n1), w1)" and
    rest: "scanCols d g options row (Suc col) (rs1, n1) w1 = (Inr (rs', n'), w')"
    by (subst (asm) scanCols.simps) (auto split: prod.splits sum.splits)
  from scanCell_cells [OF assms cell] Suc.hyps(1) [OF k rest] lt show ?case
    by (simp add: upt_conv_Cons)
qed

lemma scanRows_cells:
  assumes "\<not> skipEmptyCells_of options"
  shows "scanRows d g options row (rs, n) w = (Inr (rs', n'), w') \<Longrightarrow>
         map cellOf rs' =
           map cellOf rs @ concat (map (\<lambda>r. map (\<lambda>c. (c, r)) [0..<cols g]) [row..<rows g]) \<and>
         n' = n + (rows g - row) * cols g"
proof (induction "rows g - row" arbitrary: row rs n w)
  case 0
  then show ?case by (simp add: scanRows.simps)
next
  case (Suc k)
  then have lt: "row < rows g" and k: "k = rows g - Suc row" by simp_all
  from Suc.prems lt obtain rs1 n1 w1 where
    inner: "scanCols d g options row 0 (rs, n) w = (Inr (rs1, n1), w1)" and
    rest: "scanRows d g options (Suc row) (rs1, n1) w1 = (Inr (rs', n'), w')"
    by (subst (asm) scanRows.simps) (auto split: prod.splits sum.splits)
  have "rows g - row = Suc (rows g - Suc row)" using lt by simp
  with scanCols_cells [OF assms inner] Suc.hyps(1) [OF k rest] lt show ?case
    by (simp add: upt_conv_Cons)
qed

lemma scan_without_skipping_is_row_major:
  assumes "\<not> skipEmptyCells_of options"
    and "scanAllCellsForTooltips d g options w = (Inr rep, w')"
  shows "map cellOf (rep_results rep) = rowMajor g \<and> rep_totalCells rep = rows g * cols g"
proof -
  from assms(2) obtain rs n w1 where
    loop: "scanRows d g options 0 ([], 0) w = (Inr (rs, n), w1)" and
    rep: "rep = scanReport rs n"
    by (auto simp: scanAllCellsForTooltips_def seq_def split: prod.splits sum.splits)
  from scanRows_cells [OF assms(1) loop] show ?thesis
    by (simp add: rep scanReport_def rowMajor_def)
qed

lemmas sim_eval =
  scanAllCellsForTooltips_def scanRows.simps scanCols.simps scanCell_def notifyProgress_def
  hoverAndDetect_def seq_def catch_def ok_def throw_def clearHover_def scanReport_def
  sim_deps_def sim_start_def sim_tip_def demo_tips_def demo_deps_def demo_options_def
  skipEmptyCells_of_def hoverDelay_of_def progressCallback_of_def baselines_def
  newCellResult_def or_undefined_def truthy_text_def

lemma demo_scan:
  "fst (scanAllCellsForTooltips demo_deps \<lparr>cols = 3, rows = 2\<rparr> demo_options sim_start) =
   Inr \<lparr> rep_totalCells = 6, rep_cellsWithTooltips = 2,
         rep_results =
           [\<lparr> res_col = 0, res_row = 0, res_hasTooltip = False, res_tooltipText = None,
              res_baseline = None, res_colorTestingDisabled = Some True \<rparr>,
            \<lparr> res_col = 1, res_row = 0, res_hasTooltip = False, res_tooltipText = None,
              res_baseline = None, res_colorTestingDisabled = None \<rparr>,
            \<lparr> res_col = 2, res_row = 0, res_hasTooltip = True, res_tooltipText = Some ''A'',
              res_baseline = None, res_colorTestingDisabled = Some True \<rparr>,
            \<lparr> res_col = 0, res_row = 1, res_hasTooltip = True, res_tooltipText = None,
              res_baseline = None, res_colorTestingDisabled = Some True \<rparr>,
            \<lparr> res_col = 1, res_row = 1, res_hasTooltip = False, res_tooltipText = None,
              res_baseline = None, res_colorTestingDisabled = Some True \<rparr>,
            \<lparr> res_col = 2, res_row = 1, res_hasTooltip = False, res_tooltipText = None,
              res_baseline = None, res_colorTestingDisabled = Some True \<rparr>],
         rep_colorTestingDisabled = True,
         rep_summary = \<lparr> sum_hasAnyTooltips = True, sum_tooltipCells = [(2, 0), (0, 1)],
                         sum_domTooltips = 1, sum_canvasTooltips = 0 \<rparr> \<rparr>"
  by (simp add: sim_eval)


text \<open>
  Claim C10. Every report that \<^verbatim>\<open>scanAllCellsForTooltips\<close> returns is consistent:
  \<^verbatim>\<open>cellsWithTooltips\<close> is the number of results with \<^verbatim>\<open>hasTooltip\<close> and the length of
  \<^verbatim>\<open>summary.tooltipCells\<close>; \<^verbatim>\<open>summary.hasAnyTooltips\<close> holds exactly when it is positive;
  \<^verbatim>\<open>summary.domTooltips\<close> does not exceed it; \<^verbatim>\<open>summary.canvasTooltips\<close> is 0 and
  \<^verbatim>\<open>colorTestingDisabled\<close> is true.
\<close>

theorem report_consistent:
  assumes "scanAllCellsForTooltips d g options w = (Inr rep, w')"
  shows "rep_cellsWithTooltips rep = length (filter res_hasTooltip (rep_results rep)) \<and>
         rep_cellsWithTooltips rep = length (sum_tooltipCells (rep_summary rep)) \<and>
         (sum_hasAnyTooltips (rep_summary rep) \<longleftrightarrow> 0 < rep_cellsWithTooltips rep) \<and>
         sum_domTooltips (rep_summary rep) \<le> rep_cellsWithTooltips rep \<and>
         sum_canvasTooltips (rep_summary rep) = 0 \<and>
         rep_colorTestingDisabled rep"
proof -
  from assms obtain rs n where rep: "rep = scanReport rs n"
    by (auto simp: scanAllCellsForTooltips_def seq_def split: prod.splits sum.splits)
  have any: "list_ex res_hasTooltip rs \<longleftrightarrow> 0 < length (filter res_hasTooltip rs)"
    by (simp add: list_ex_iff filter_empty_conv)
  have "filter (\<lambda>r. res_hasTooltip r \<and> truthy_text (res_tooltipText r)) rs =
        filter (\<lambda>r. truthy_text (res_tooltipText r)) (filter res_hasTooltip rs)"
    by (simp add: conj_commute)
  then have dom: "length (filter (\<lambda>r. res_hasTooltip r \<and> truthy_text (res_tooltipText r)) rs)
      \<le> length (filter res_hasTooltip rs)"
    by (simp only: length_filter_le)
  from any dom show ?thesis
    by (simp add: rep scanReport_def)
qed

theorem report_consistent_witness:
  "fst (scanAllCellsForTooltips demo_deps \<lparr>cols = 3, rows = 2\<rparr> demo_options sim_start) =
     Inr (projr (fst (scanAllCellsForTooltips demo_deps \<lparr>cols = 3, rows = 2\<rparr> demo_options
       sim_start))) \<and>
   map cellOf (rep_results (projr (fst (scanAllCellsForTooltips demo_deps \<lparr>cols = 3, rows = 2\<rparr>
       demo_options sim_start)))) = [(0, 0), (1, 0), (2, 0), (0, 1), (1, 1), (2, 1)] \<and>
   map res_hasTooltip (rep_results (projr (fst (scanAllCellsForTooltips demo_deps
       \<lparr>cols = 3, rows = 2\<rparr> demo_options sim_start)))) =
     [False, False, True, True, False, False] \<and>
   rep_cellsWithTooltips (projr (fst (scanAllCellsForTooltips demo_deps \<lparr>cols = 3, rows = 2\<rparr>
       demo_options sim_start))) = 2 \<and>
   sum_tooltipCells (rep_summary (projr (fst (scanAllCellsForTooltips demo_deps
       \<lparr>cols = 3, rows = 2\<rparr> demo_options sim_start)))) = [(2, 0), (0, 1)] \<and>
   sum_hasAnyTooltips (rep_summary (projr (fst (scanAllCellsForTooltips demo_deps
       \<lparr>cols = 3, rows = 2\<rparr> demo_options sim_start)))) \<and>
   sum_domTooltips (rep_summary (projr (fst (scanAllCellsForTooltips demo_deps
       \<lparr>cols = 3, rows = 2\<rparr> demo_options sim_start)))) = 1 \<and>
   sum_canvasTooltips (rep_summary (projr (fst (scanAllCellsForTooltips demo_deps
       \<lparr>cols = 3, rows = 2\<rparr> demo_options sim_start)))) = 0 \<and>
   rep_colorTestingDisabled (projr (fst (scanAllCellsForTooltips demo_deps \<lparr>cols = 3, rows = 2\<rparr>
       demo_options sim_start)))"
proof -
  let ?run = "scanAllCellsForTooltips demo_deps \<lparr>cols = 3, rows = 2\<rparr> demo_options sim_start"
  have run: "?run = (Inr (projr (fst ?run)), snd ?run)"
    by (simp add: prod_eq_iff demo_scan)
  from report_consistent [OF run] show ?thesis
    by (simp add: demo_scan cellOf_def)
qed

lemma scanCell_records:
  assumes "\<not> skipEmptyCells_of options"
    and pause: "\<And>w. fst (page_waitForTimeout d 10 w) = Inr ()"
    and notify: "\<And>col row n w. fst (notifyProgress options g col row n w) = Inr ()"
  shows "scanCell d g options row col (rs, n) w =
         (Inr (rs @ fst (recordCells d g options [(col, row)] n w), Suc n),
          snd (recordCells d g options [(col, row)] n w))"
proof -
  let ?fresh = "newCellResult col row None"
  obtain w1 where n1: "notifyProgress options g col row n w = (Inr (), w1)"
    using notify [of col row n w] by (cases "notifyProgress options g col row n w") simp
  obtain res w2 where t: "hoverAndDetect d (hoverDelay_of options) col row ?fresh w1 = (res, w2)"
    by (cases "hoverAndDetect d (hoverDelay_of options) col row ?fresh w1")
  obtain w3 where p: "page_waitForTimeout d 10 w2 = (Inr (), w3)"
    using pause [of w2] by (cases "page_waitForTimeout d 10 w2") simp
  show ?thesis
    using assms(1)
    by (cases res)
      (simp_all add: scanCell_def baselines_def Let_def seq_def catch_def ok_def n1 t p)
qed

lemma recordCells_append:
  "recordCells d g options (xs @ ys) n w =
   (fst (recordCells d g options xs n w) @
      fst (recordCells d g options ys (n + length xs) (snd (recordCells d g options xs n w))),
    snd (recordCells d g options ys (n + length xs) (snd (recordCells d g options xs n w))))"
  by (induction xs arbitrary: n w) (simp_all add: Let_def)

lemma scanCols_records:
  assumes "\<not> skipEmptyCells_of options"
    and pause: "\<And>w. fst (page_waitForTimeout d 10 w) = Inr ()"
    and notify: "\<And>col row n w. fst (notifyProgress options g col row n w) = Inr ()"
  shows "scanCols d g options row col (rs, n) w =
         (Inr (rs @ fst (recordCells d g options (map (\<lambda>c. (c, row)) [col..<cols g]) n w),
               n + (cols g - col)),
          snd (recordCells d g options (map (\<lambda>c. (c, row)) [col..<cols g]) n w))"
proof (induction "cols g - col" arbitrary: col rs n w)
  case 0
  then show ?case by (simp add: scanCols.simps)
next
  case (Suc k)
  then have lt: "col < cols g" and k: "k = cols g - Suc col" by simp_all
  show ?case
    using lt
    by (subst scanCols.simps)
      (simp add: scanCell_records [OF assms] Suc.hyps(1) [OF k] upt_conv_Cons Let_def)
qed

lemma scanRows_records:
  assumes "\<not> skipEmptyCells_of options"
    and pause: "\<And>w. fst (page_waitForTimeout d 10 w) = Inr ()"
    and notify: "\<And>col row n w. fst (notifyProgress options g col row n w) = Inr ()"
  shows "scanRows d g options row (rs, n) w =
         (Inr (rs @ fst (recordCells d g options
                 (concat (map (\<lambda>r. map (\<lambda>c. (c, r)) [0..<cols g]) [row..<rows g])) n w),
               n + (rows g - row) * cols g),
          snd (recordCells d g options
                 (concat (map (\<lambda>r. map (\<lambda>c. (c, r)) [0..<cols g]) [row..<rows g])) n w))"
proof (induction "rows g - row" arbitrary: row rs n w)
  case 0
  then show ?case by (simp add: scanRows.simps)
next
  case (Suc k)
  then have lt: "row < rows g" and k: "k = rows g - Suc row" by simp_all
  have cells: "concat (map (\<lambda>r. map (\<lambda>c. (c, r)) [0..<cols g]) [row..<rows g]) =
      map (\<lambda>c. (c, row)) [0..<cols g] @
      concat (map (\<lambda>r. map (\<lambda>c. (c, r)) [0..<cols g]) [Suc row..<rows g])"
    using lt by (simp add: upt_conv_Cons)
  have count: "rows g - row = Suc (rows g - Suc row)" using lt by simp
  show ?case
    using lt
    by (subst scanRows.simps)
      (simp add: scanCols_records [OF assms] Suc.hyps(1) [OF k] cells recordCells_append count
        del: recordCells.simps)
qed

lemma recordCells_cells: "map cellOf (fst (recordCells d g options cells n w)) = cells"
proof (induction cells arbitrary: n w)
  case Nil
  then show ?case by simp
next
  case (Cons c cells)
  let ?fresh = "newCellResult (fst c) (snd c) None"
  have "cellOf r = c"
    if "fst (hoverAndDetect d (hoverDelay_of options) (fst c) (snd c) ?fresh w1) = Inr r" for r w1
  proof -
    from that have "hoverAndDetect d (hoverDelay_of options) (fst c) (snd c) ?fresh w1 =
        (Inr r, snd (hoverAndDetect d (hoverDelay_of options) (fst c) (snd c) ?fresh w1))"
      by (simp add: prod_eq_iff)
    from hoverAndDetect_cell [OF this] show ?thesis
      by (simp add: cellOf_def newCellResult_def)
  qed
  moreover have "cellOf ?fresh = c"
    by (simp add: cellOf_def newCellResult_def)
  ultimately show ?case
    using Cons.IH by (auto simp: Let_def split: sum.splits)
qed

lemma recordCells_failed:
  assumes "hoverAndDetect d (hoverDelay_of options) (fst c) (snd c)
             (newCellResult (fst c) (snd c) None) (tryWorld d g options before c w) = (Inl e, w2)"
  shows "fst (recordCells d g options (before @ c # after) 0 w) ! length before =
         newCellResult (fst c) (snd c) None"
proof -
  have "length (fst (recordCells d g options before 0 w)) = length before"
    using recordCells_cells [of d g options before 0 w, THEN arg_cong, of length] by simp
  then show ?thesis
    using assms by (simp add: recordCells_append nth_append tryWorld_def Let_def)
qed

text \<open>
  Claim C5, amended. In a scan that does not skip its cells, and whose progress callback
  and 10 ms pause between cells (both outside the \<^verbatim>\<open>try\<close>) never throw, every failure of a
  cell's hover, wait or tooltip query is caught: \<^verbatim>\<open>scanAllCellsForTooltips\<close> returns a
  report, its results are the cells of the grid in row-major order, one each, as the
  isolating fold \<open>recordCells\<close> records them, and every cell whose \<^verbatim>\<open>try\<close> body threw stands
  at its place in the results with \<^verbatim>\<open>hasTooltip = false\<close> and no tooltip text.
\<close>

theorem scan_isolates_cell_failures:
  assumes "\<not> skipEmptyCells_of options"
    and "\<And>w. fst (page_waitForTimeout d 10 w) = Inr ()"
    and "\<And>col row n w. fst (notifyProgress options g col row n w) = Inr ()"
  shows "\<exists>rep w'. scanAllCellsForTooltips d g options w = (Inr rep, w') \<and>
           rep_results rep = fst (recordCells d g options (rowMajor g) 0 w) \<and>
           map cellOf (rep_results rep) = rowMajor g \<and>
           rep_totalCells rep = rows g * cols g \<and>
           (\<forall>before c after e w2.
              rowMajor g = before @ c # after \<and>
              hoverAndDetect d (hoverDelay_of options) (fst c) (snd c)
                (newCellResult (fst c) (snd c) None) (tryWorld d g options before c w) = (Inl e, w2)
              \<longrightarrow> rep_results rep ! length before =
                    \<lparr> res_col = fst c, res_row = snd c, res_hasTooltip = False,
                      res_tooltipText = None, res_baseline = None,
                      res_colorTestingDisabled = None \<rparr>)"
proof -
  let ?run = "recordCells d g options (rowMajor g) 0 w"
  have scan: "scanAllCellsForTooltips d g options w =
      (Inr (scanReport (fst ?run) (rows g * cols g)), clearHover d (snd ?run))"
    by (simp add: scanAllCellsForTooltips_def seq_def scanRows_records [OF assms] rowMajor_def)
  have failed: "fst ?run ! length before =
      \<lparr> res_col = fst c, res_row = snd c, res_hasTooltip = False,
        res_tooltipText = None, res_baseline = None, res_colorTestingDisabled = None \<rparr>"
    if "rowMajor g = before @ c # after"
      and "hoverAndDetect d (hoverDelay_of options) (fst c) (snd c)
            (newCellResult (fst c) (snd c) None) (tryWorld d g options before c w) = (Inl e, w2)"
    for before c after e w2
    using recordCells_failed [OF that(2), of after] that(1) by (simp add: newCellResult_def)
  have "rep_results (scanReport (fst ?run) (rows g * cols g)) = fst ?run"
    and "map cellOf (rep_results (scanReport (fst ?run) (rows g * cols g))) = rowMajor g"
    and "rep_totalCells (scanReport (fst ?run) (rows g * cols g)) = rows g * cols g"
    by (simp_all add: scanReport_def recordCells_cells)
  with scan failed show ?thesis
    by (intro exI [of _ "scanReport (fst ?run) (rows g * cols g)"]
        exI [of _ "clearHover d (snd ?run)"]) auto
qed


text \<open>
  Claim C5, as stated, fails: the pause after the \<^verbatim>\<open>catch\<close> is outside the \<^verbatim>\<open>try\<close>. On a
  page that closes when cell \<open>(1, 0)\<close> is hovered, the throw of that hover is caught, the
  pause that follows throws as well, and the scan ends with that error instead of going
  on to cell \<open>(2, 0)\<close>: no report is returned.
\<close>

theorem scan_aborted_counterexample:
  "mouseInteractions_hoverCell crash_deps 1 0 \<lparr> moveSteps = 2, jitterAmount = 1, dwellTime = 20 \<rparr>
     \<lparr> sw_pointer = Some (0, 0), sw_trace = [Hover 0 0, Wait 200, Query, Wait 10] \<rparr> =
   (Inl (Error ''Target closed''),
    \<lparr> sw_pointer = Some (0, 0), sw_trace = [Hover 0 0, Wait 200, Query, Wait 10, Hover 1 0] \<rparr>) \<and>
   scanAllCellsForTooltips crash_deps \<lparr>cols = 3, rows = 2\<rparr> demo_options sim_start =
   (Inl (Error ''Target closed''),
    \<lparr> sw_pointer = Some (0, 0),
      sw_trace = [Hover 0 0, Wait 200, Query, Wait 10, Hover 1 0, Wait 10] \<rparr>)"
  by (simp add: scanAllCellsForTooltips_def scanRows.simps scanCols.simps scanCell_def
      notifyProgress_def hoverAndDetect_def seq_def catch_def ok_def crash_deps_def
      page_closed_def sim_start_def demo_options_def skipEmptyCells_of_def hoverDelay_of_def
      progressCallback_of_def baselines_def newCellResult_def)

theorem scan_isolates_cell_failures_witness:
  "\<not> skipEmptyCells_of demo_options \<and>
   (\<forall>w. fst (page_waitForTimeout demo_deps 10 w) = Inr ()) \<and>
   (\<forall>col row n w. fst (notifyProgress demo_options \<lparr>cols = 3, rows = 2\<rparr> col row n w) = Inr ()) \<and>
   rowMajor \<lparr>cols = 3, rows = 2\<rparr> = [(0, 0)] @ (1, 0) # [(2, 0), (0, 1), (1, 1), (2, 1)] \<and>
   hoverAndDetect demo_deps (hoverDelay_of demo_options) 1 0 (newCellResult 1 0 None)
       (tryWorld demo_deps \<lparr>cols = 3, rows = 2\<rparr> demo_options [(0, 0)] (1, 0) sim_start) =
     (Inl (Error ''hover failed''),
      \<lparr> sw_pointer = Some (0, 0),
        sw_trace = [Hover 0 0, Wait 200, Query, Wait 10, Hover 1 0] \<rparr>) \<and>
   (\<exists>rep w'. scanAllCellsForTooltips demo_deps \<lparr>cols = 3, rows = 2\<rparr> demo_options sim_start =
        (Inr rep, w') \<and>
      map cellOf (rep_results rep) = [(0, 0), (1, 0), (2, 0), (0, 1), (1, 1), (2, 1)] \<and>
      rep_totalCells rep = 6 \<and>
      rep_results rep ! 1 =
        \<lparr> res_col = 1, res_row = 0, res_hasTooltip = False, res_tooltipText = None,
          res_baseline = None, res_colorTestingDisabled = None \<rparr>)"
proof -
  let ?g = "\<lparr>cols = 3, rows = 2\<rparr>"
  have skip: "\<not> skipEmptyCells_of demo_options"
    by (simp add: skipEmptyCells_of_def demo_options_def)
  have pause: "fst (page_waitForTimeout demo_deps 10 w) = Inr ()" for w
    by (simp add: demo_deps_def sim_deps_def)
  have notify: "fst (notifyProgress demo_options ?g col row n w) = Inr ()" for col row n w
    by (simp add: notifyProgress_def progressCallback_of_def demo_options_def ok_def)
  have order: "rowMajor ?g = [(0, 0)] @ (1, 0) # [(2, 0), (0, 1), (1, 1), (2, 1)]"
    by (simp add: rowMajor_def upt_conv_Cons)
  have thrown: "hoverAndDetect demo_deps (hoverDelay_of demo_options) (fst (1, 0)) (snd (1, 0))
       (newCellResult (fst (1, 0)) (snd (1, 0)) None)
       (tryWorld demo_deps ?g demo_options [(0, 0)] (1, 0) sim_start) =
     (Inl (Error ''hover failed''),
      \<lparr> sw_pointer = Some (0, 0),
        sw_trace = [Hover 0 0, Wait 200, Query, Wait 10, Hover 1 0] \<rparr>)"
    by (simp add: tryWorld_def Let_def sim_eval)
  from scan_isolates_cell_failures [of demo_options demo_deps ?g sim_start, OF skip pause notify]
  obtain rep w' where
    run: "scanAllCellsForTooltips demo_deps ?g demo_options sim_start = (Inr rep, w')" and
    cells: "map cellOf (rep_results rep) = rowMajor ?g" and
    total: "rep_totalCells rep = rows ?g * cols ?g" and
    failed: "\<And>before c after e w2.
      rowMajor ?g = before @ c # after \<Longrightarrow>
      hoverAndDetect demo_deps (hoverDelay_of demo_options) (fst c) (snd c)
        (newCellResult (fst c) (snd c) None) (tryWorld demo_deps ?g demo_options before c sim_start)
        = (Inl e, w2) \<Longrightarrow>
      rep_results rep ! length before =
        \<lparr> res_col = fst c, res_row = snd c, res_hasTooltip = False,
          res_tooltipText = None, res_baseline = None, res_colorTestingDisabled = None \<rparr>"
    by blast
  from failed [OF order thrown] have "rep_results rep ! 1 =
      \<lparr> res_col = 1, res_row = 0, res_hasTooltip = False, res_tooltipText = None,
        res_baseline = None, res_colorTestingDisabled = None \<rparr>"
    by simp
  with run cells total order have "\<exists>rep w'.
      scanAllCellsForTooltips demo_deps ?g demo_options sim_start = (Inr rep, w') \<and>
      map cellOf (rep_results rep) = [(0, 0), (1, 0), (2, 0), (0, 1), (1, 1), (2, 1)] \<and>
      rep_totalCells rep = 6 \<and>
      rep_results rep ! 1 =
        \<lparr> res_col = 1, res_row = 0, res_hasTooltip = False, res_tooltipText = None,
          res_baseline = None, res_colorTestingDisabled = None \<rparr>"
    by auto
  with skip pause notify order thrown show ?thesis
    by simp
qed

section \<open>The quick check\<close>

subsection \<open>The sampling step in integers\<close>




subsection \<open>The sampled cells\<close>










subsection \<open>The checking loop\<close>











section \<open>Waiting for a tooltip\<close>

lemma attempt_selector:
  assumes "attempt api selector share w = (Inr info, w')"
  shows "info_selector info = selector"
  using assms
  by (auto simp: attempt_def seq_def ok_def split: prod.splits sum.splits)

lemma trySelectors_Some:
  "trySelectors api share selectors w = (Some info, w') \<Longrightarrow>
   \<exists>before after wi. selectors = before @ info_selector info # after \<and>
     allFail api share before w = Some wi \<and>
     attempt api (info_selector info) share wi = (Inr info, w')"
proof (induction selectors arbitrary: w)
  case Nil
  then show ?case by simp
next
  case (Cons s selectors)
  obtain res w1 where att: "attempt api s share w = (res, w1)"
    by (cases "attempt api s share w")
  show ?case
  proof (cases res)
    case (Inr info1)
    with Cons.prems att have hit: "attempt api s share w = (Inr info, w')"
      by simp
    then have "info_selector info = s"
      by (rule attempt_selector)
    with hit have "s # selectors = [] @ info_selector info # selectors \<and>
        allFail api share [] w = Some w \<and>
        attempt api (info_selector info) share w = (Inr info, w')"
      by simp
    then show ?thesis by blast
  next
    case (Inl e)
    with Cons.prems att have "trySelectors api share selectors w1 = (Some info, w')"
      by simp
    from Cons.IH [OF this] obtain before after wi where
      split: "selectors = before @ info_selector info # after" and
      before: "allFail api share before w1 = Some wi" and
      hit: "attempt api (info_selector info) share wi = (Inr info, w')"
      by blast
    have "allFail api share (s # before) w = Some wi"
      using Inl att before by simp
    with split hit have "s # selectors = (s # before) @ info_selector info # after \<and>
        allFail api share (s # before) w = Some wi \<and>
        attempt api (info_selector info) share wi = (Inr info, w')"
      by simp
    then show ?thesis by blast
  qed
qed

lemma trySelectors_None:
  "trySelectors api share selectors w = (None, w') \<Longrightarrow>
   allFail api share selectors w = Some w'"
  by (induction selectors arbitrary: w) (auto split: prod.splits sum.splits)

lemma join_mentions: "s \<in> set selectors \<Longrightarrow> sublist s (join sep selectors)"
proof (induction sep selectors rule: join.induct)
  case (1 sep)
  then show ?case by simp
next
  case (2 sep t)
  then show ?case by simp
next
  case (3 sep t u rest)
  show ?case
  proof (cases "s = t")
    case True
    then show ?thesis by simp
  next
    case False
    with "3.prems" have "s \<in> set (u # rest)" by simp
    then have "sublist s (join sep (u # rest))" by (rule "3.IH")
    then have "sublist s ((t @ sep) @ join sep (u # rest))"
      by (rule sublist_order.order.trans) (rule sublist_append_leftI)
    then show ?thesis by simp
  qed
qed

lemma noTooltipMessage_mentions:
  "sublist (show_nat timeout) (noTooltipMessage timeout selectors)"
  "s \<in> set selectors \<Longrightarrow> sublist s (noTooltipMessage timeout selectors)"
proof -
  have "noTooltipMessage timeout selectors =
        ''No tooltip found within '' @ show_nat timeout @
        (''ms using selectors: '' @ join '', '' selectors)"
    by (simp add: noTooltipMessage_def)
  then show "sublist (show_nat timeout) (noTooltipMessage timeout selectors)"
    by (simp only: sublist_appendI)
  assume "s \<in> set selectors"
  then have "sublist s (join '', '' selectors)" by (rule join_mentions)
  then have "sublist s ((''No tooltip found within '' @ show_nat timeout @
        ''ms using selectors: '') @ join '', '' selectors)"
    by (rule sublist_order.order.trans) (rule sublist_append_leftI)
  then show "sublist s (noTooltipMessage timeout selectors)"
    by (simp add: noTooltipMessage_def)
qed

text \<open>
  Claim C9, amended. \<^verbatim>\<open>waitForTooltip\<close> gives every selector the share
  \<open>timeout / numberOfSelectors\<close>. When it returns, the result is that of the first
  selector, in order, whose whole attempt succeeds (it becomes visible within its share
  and its text, markup and bounding box are then read without a throw); every selector
  before it has failed its attempt, and the result carries that selector. When it throws,
  every selector has failed its attempt, and the error message is
  \<open>No tooltip found within <timeout>ms using selectors: <selectors joined by ", ">\<close>, which
  contains the timeout and every selector.
\<close>

theorem waitForTooltip_first_success:
  assumes "waitForTooltip api options w = (res, w')"
    and "timeout = timeout_of options"
    and "selectors = tooltipSelectors_of options"
    and "share = real timeout / real (length selectors)"
  shows "(case res of
            Inr info \<Rightarrow>
              (\<exists>before after wi. selectors = before @ info_selector info # after \<and>
                 allFail api share before w = Some wi \<and>
                 attempt api (info_selector info) share wi = (Inr info, w'))
          | Inl e \<Rightarrow>
              allFail api share selectors w = Some w' \<and>
              e = Error (noTooltipMessage timeout selectors) \<and>
              sublist (show_nat timeout) (noTooltipMessage timeout selectors) \<and>
              list_all (\<lambda>s. sublist s (noTooltipMessage timeout selectors)) selectors)"
proof -
  obtain found w1 where loop: "trySelectors api share selectors w = (found, w1)"
    by (cases "trySelectors api share selectors w")
  show ?thesis
  proof (cases found)
    case None
    with loop assms have res: "res = Inl (Error (noTooltipMessage timeout selectors))"
      and w': "w1 = w'"
      by (auto simp: waitForTooltip_def Let_def)
    from loop None w' have "allFail api share selectors w = Some w'"
      by (simp add: trySelectors_None)
    then show ?thesis
      by (simp add: res noTooltipMessage_mentions list_all_iff)
  next
    case (Some info)
    with loop assms have res: "res = Inr info" and w': "w1 = w'"
      by (auto simp: waitForTooltip_def Let_def)
    from trySelectors_Some [of api share selectors w info w'] loop Some w'
    show ?thesis
      by (simp add: res)
  qed
qed

lemmas locator_eval =
  waitForTooltip_def attempt_def seq_def ok_def timeout_of_def tooltipSelectors_of_def
  sim_locators_def demo_locators_def dead_locators_def demo_wait_options_def or_undefined_def
  noTooltipMessage_def
  show_nat.simps

lemma demo_wait_run:
  "waitForTooltip demo_locators demo_wait_options [] =
   (Inr \<lparr> info_selector = ''.c'', info_text = Some ''text of .c'', info_html = ''.c'',
          info_boundingBox = None \<rparr>,
    [WaitFor ''.a'' 500, WaitFor ''.b'' 500, TextContent ''.b'', WaitFor ''.c'' 500,
     TextContent ''.c'', InnerHTML ''.c'', BoundingBox ''.c''])"
  by (simp add: locator_eval)

lemma demo_wait_timeout:
  "waitForTooltip dead_locators demo_wait_options [] =
   (Inl (Error ''No tooltip found within 1500ms using selectors: .a, .b, .c''),
    [WaitFor ''.a'' 500, WaitFor ''.b'' 500, WaitFor ''.c'' 500])"
  by (simp add: locator_eval)

text \<open>
  Claim C9, as stated, fails: a selector that becomes visible within its share is not
  returned when reading it throws. Here \<open>.b\<close> is the first selector to become visible
  (its wait resolves), its \<^verbatim>\<open>textContent\<close> throws inside the same \<^verbatim>\<open>try\<close>, and the result
  is that of \<open>.c\<close>.
\<close>

theorem waitForTooltip_counterexample:
  "locator_waitFor demo_locators ''.b'' 500 [WaitFor ''.a'' 500] =
     (Inr (), [WaitFor ''.a'' 500, WaitFor ''.b'' 500]) \<and>
   waitForTooltip demo_locators demo_wait_options [] =
   (Inr \<lparr> info_selector = ''.c'', info_text = Some ''text of .c'', info_html = ''.c'',
          info_boundingBox = None \<rparr>,
    [WaitFor ''.a'' 500, WaitFor ''.b'' 500, TextContent ''.b'', WaitFor ''.c'' 500,
     TextContent ''.c'', InnerHTML ''.c'', BoundingBox ''.c''])"
  by (simp add: locator_eval)

theorem waitForTooltip_first_success_witness:
  "waitForTooltip demo_locators demo_wait_options [] =
     (Inr \<lparr> info_selector = ''.c'', info_text = Some ''text of .c'', info_html = ''.c'',
            info_boundingBox = None \<rparr>,
      [WaitFor ''.a'' 500, WaitFor ''.b'' 500, TextContent ''.b'', WaitFor ''.c'' 500,
       TextContent ''.c'', InnerHTML ''.c'', BoundingBox ''.c'']) \<and>
   (1500::nat) = timeout_of demo_wait_options \<and>
   [''.a'', ''.b'', ''.c''] = tooltipSelectors_of demo_wait_options \<and>
   (500::real) = real (1500::nat) / real (length [''.a'', ''.b'', ''.c'']) \<and>
   (\<exists>before after wi. [''.a'', ''.b'', ''.c''] = before @ ''.c'' # after \<and>
      allFail demo_locators 500 before [] = Some wi \<and>
      attempt demo_locators ''.c'' 500 wi =
        (Inr \<lparr> info_selector = ''.c'', info_text = Some ''text of .c'', info_html = ''.c'',
               info_boundingBox = None \<rparr>,
         [WaitFor ''.a'' 500, WaitFor ''.b'' 500, TextContent ''.b'', WaitFor ''.c'' 500,
          TextContent ''.c'', InnerHTML ''.c'', BoundingBox ''.c''])) \<and>
   waitForTooltip dead_locators demo_wait_options [] =
     (Inl (Error ''No tooltip found within 1500ms using selectors: .a, .b, .c''),
      [WaitFor ''.a'' 500, WaitFor ''.b'' 500, WaitFor ''.c'' 500]) \<and>
   allFail dead_locators 500 [''.a'', ''.b'', ''.c''] [] =
     Some [WaitFor ''.a'' 500, WaitFor ''.b'' 500, WaitFor ''.c'' 500] \<and>
   sublist ''1500'' ''No tooltip found within 1500ms using selectors: .a, .b, .c'' \<and>
   list_all (\<lambda>s. sublist s ''No tooltip found within 1500ms using selectors: .a, .b, .c'')
     [''.a'', ''.b'', ''.c'']"
proof -
  have t: "(1500::nat) = timeout_of demo_wait_options"
    and s: "[''.a'', ''.b'', ''.c''] = tooltipSelectors_of demo_wait_options"
    and sh: "(500::real) = real (1500::nat) / real (length [''.a'', ''.b'', ''.c''])"
    by (simp_all add: timeout_of_def tooltipSelectors_of_def demo_wait_options_def)
  have m: "noTooltipMessage 1500 [''.a'', ''.b'', ''.c''] =
      ''No tooltip found within 1500ms using selectors: .a, .b, .c''"
    and n: "show_nat 1500 = ''1500''"
    by (simp_all add: noTooltipMessage_def show_nat.simps)
  from waitForTooltip_first_success [OF demo_wait_run t s sh]
    waitForTooltip_first_success [OF demo_wait_timeout t s sh]
    demo_wait_run demo_wait_timeout t s sh m n
  show ?thesis
    by simp
qed

section \<open>Sampling a cell\<close>

lemma sampleCell_null_handle:
  assumes "canvas_elementHandle api w = (Inr None, w1)"
  shows "sampleCell api g col row w = Some (Inl (Error ''canvas not found''), w1)"
  using assms by (simp add: sampleCell_def)

text \<open>A rejected evaluation does reach the capture fallback.\<close>

lemma sampleCell_rejected_evaluation:
  assumes "canvas_elementHandle api w = (Inr (Some h), w1)"
    and "page_evaluate_element api h w1 = (Inl e, w2)"
  shows "sampleCell api g col row w = Some (captureFallback api g col row w2)"
  using assms by (simp add: sampleCell_def directRead_def)

text \<open>A read that throws inside the frame callback does not: the call never returns.\<close>

lemma sampleCell_pending:
  assumes "canvas_elementHandle api w = (Inr (Some h), w1)"
    and "page_evaluate_element api h w1 = (Inr can, w2)"
    and "directReadScript can g col row = Pending"
  shows "sampleCell api g col row w = None"
  using assms by (simp add: sampleCell_def directRead_def)

lemma directReadScript_read_throws:
  assumes "gl_readPixels can = None" and "ctx2d_getImageData can = Some getImageData"
    and "\<And>x y. getImageData x y = Inl e"
  shows "directReadScript can g col row = Pending"
  using assms
  by (simp add: directReadScript_def Let_def avg_def neighbourhood_def frameCallback_def)

lemma directReadScript_no_context:
  assumes "gl_readPixels can = None" and "ctx2d_getImageData can = None"
  shows "directReadScript can g col row = Pending"
  using assms
  by (simp add: directReadScript_def Let_def avg_def neighbourhood_def frameCallback_def)

lemmas sampler_eval =
  sampleCell_def directRead_def directReadScript_def avg_def neighbourhood_def
  frameCallback_def js_round_def captureFallback_def seq_def ok_def throw_def
  sim_sampler_def red_sampler_def tainted_sampler_def stale_sampler_def
  red_canvas_def tainted_canvas_def demo_box_def clip_def cellW_def cellH_def

lemma sampleCell_red:
  "sampleCell red_sampler \<lparr>cols = 4, rows = 3\<rparr> 1 2 [] =
   Some (Inr [255, 0, 0, 255], [ElementHandle, Evaluate 7])"
  by (simp add: sampler_eval)

lemma sampleCell_stale:
  "sampleCell stale_sampler \<lparr>cols = 4, rows = 3\<rparr> 1 2 [] =
   Some (Inr [1, 2, 3, 255],
     [ElementHandle, Evaluate 7, CanvasBox,
      Screenshot \<lparr>box_x = 60, box_y = 110, box_width = 50, box_height = 50\<rparr>,
      Decode [137, 80, 78, 71]])"
  by (simp add: sampler_eval)

text \<open>
  Claim C3, at its failing input. On a page whose 2D canvas is tainted, the pixel read
  of tier 1 throws inside the \<^verbatim>\<open>requestAnimationFrame\<close> callback, the promise of the
  script never settles and \<^verbatim>\<open>sampleCell\<close> never returns: it neither throws nor reaches
  tier 2, although the capture fallback, started in the world the evaluation leaves,
  would return a colour.
\<close>

theorem sampleCell_tainted_never_returns:
  "directReadScript tainted_canvas \<lparr>cols = 4, rows = 3\<rparr> 1 2 = Pending \<and>
   sampleCell tainted_sampler \<lparr>cols = 4, rows = 3\<rparr> 1 2 [] = None \<and>
   captureFallback tainted_sampler \<lparr>cols = 4, rows = 3\<rparr> 1 2 [ElementHandle, Evaluate 7] =
     (Inr [1, 2, 3, 255],
      [ElementHandle, Evaluate 7, CanvasBox,
       Screenshot \<lparr>box_x = 60, box_y = 110, box_width = 50, box_height = 50\<rparr>,
       Decode [137, 80, 78, 71]])"
  by (simp add: sampler_eval)

end
